theory Spec2Isabelle
  imports Main "HOL-Library.AList"
begin

section \<open>Settings: data model (settings.go)\<close>

text \<open>
  A \<open>time.Duration\<close> is a signed count of nanoseconds. The code only compares durations,
  so they are integers here.
\<close>

type_synonym Duration = int

definition Second :: Duration where
  "Second = 1000000000"

definition DefaultURL :: string where
  "DefaultURL = ''postgresql://postgres@localhost:5432/testdb?sslmode=disable''"

definition DefaultDBAlias :: string where
  "DefaultDBAlias = ''default''"

definition DefaultLogLevel :: string where
  "DefaultLogLevel = ''warn''"

text \<open>
  Go pointers and maps are references. A \<open>*poolSettings\<close> is an address into \<open>poolHeap\<close>
  (\<open>None\<close> is nil), a \<open>map[string]databaseSettings\<close> is an address into \<open>mapHeap\<close>
  (\<open>None\<close> is the nil map). Structs are values and are copied on assignment.
\<close>

type_synonym ptr = nat

type_synonym Logger = nat

record poolSettings =
  MaxIdleConns :: int
  MaxOpenConns :: int
  ConnMaxLifeTime :: Duration
  ConnMaxIdleTime :: Duration
  PingTimeout :: Duration
  Log_Level :: string
  Trace_Enabled :: bool
  SetParams :: "(string \<times> string) list"

record databaseSettings =
  URL :: string
  User :: string
  Password :: string
  PGConfig :: "ptr option"

record settings =
  PGConfig_s :: "ptr option"
  Databases :: "ptr option"
  app :: string
  logger :: Logger

text \<open>
  The package state: the package-level variable \<open>defaultSettings\<close> and the objects that
  pointers and maps refer to. \<open>nextPtr\<close> is the next address \<open>&poolSettings{}\<close> allocates.
\<close>

record world =
  defaultSettings :: settings
  poolHeap :: "ptr \<rightharpoonup> poolSettings"
  mapHeap :: "ptr \<rightharpoonup> (string \<rightharpoonup> databaseSettings)"
  nextPtr :: ptr

text \<open>A call either returns or panics (nil dereference, assignment to an entry of a nil map).\<close>

datatype 'a outcome = Panic | Return 'a

definition zero_poolSettings :: poolSettings where
  "zero_poolSettings =
     \<lparr>MaxIdleConns = 0, MaxOpenConns = 0, ConnMaxLifeTime = 0, ConnMaxIdleTime = 0,
      PingTimeout = 0, Log_Level = [], Trace_Enabled = False, SetParams = []\<rparr>"

definition zero_databaseSettings :: databaseSettings where
  "zero_databaseSettings = \<lparr>URL = [], User = [], Password = [], PGConfig = None\<rparr>"

text \<open>The initial value of \<open>defaultSettings\<close> (the "standard lib defaults").\<close>

definition init_poolSettings :: poolSettings where
  "init_poolSettings =
     \<lparr>MaxIdleConns = 2, MaxOpenConns = 0, ConnMaxLifeTime = 0, ConnMaxIdleTime = 0,
      PingTimeout = 10 * Second, Log_Level = DefaultLogLevel, Trace_Enabled = False,
      SetParams = []\<rparr>"

definition init_world :: world where
  "init_world =
     \<lparr>defaultSettings = \<lparr>PGConfig_s = Some 0, Databases = Some 0, app = [], logger = 0\<rparr>,
      poolHeap = [0 \<mapsto> init_poolSettings],
      mapHeap = [0 \<mapsto> [DefaultDBAlias \<mapsto> zero_databaseSettings\<lparr>URL := DefaultURL\<rparr>]],
      nextPtr = 1\<rparr>"

text \<open>Reading a map: a nil map reads as empty.\<close>

definition readMap :: "world \<Rightarrow> ptr option \<Rightarrow> (string \<rightharpoonup> databaseSettings)" where
  "readMap w m =
     (case m of
        None \<Rightarrow> Map.empty
      | Some a \<Rightarrow> (case mapHeap w a of None \<Rightarrow> Map.empty | Some mp \<Rightarrow> mp))"

text \<open>Dereferencing a \<open>*poolSettings\<close>: nil (or an address that holds nothing) panics.\<close>

definition deref :: "world \<Rightarrow> ptr option \<Rightarrow> poolSettings outcome" where
  "deref w p =
     (case p of
        None \<Rightarrow> Panic
      | Some a \<Rightarrow> (case poolHeap w a of None \<Rightarrow> Panic | Some ps \<Rightarrow> Return ps))"

section \<open>Options (options.go)\<close>

datatype PoolOption =
    WithMaxIdleConns int
  | WithMaxOpenConns int
  | WithConnMaxIdleTime Duration
  | WithConnMaxLifeTime Duration
  | WithLogLevel string
  | WithTracing bool
  | WithPingTimeout Duration
  | WithSetClause string string

datatype DBOption =
    WithURL string
  | WithUser string
  | WithPassword string
  | WithPoolSettings "PoolOption list"

text \<open>
  \<open>Option\<close> of the source is \<open>SOption\<close> here. The options that read a viper registry
  (\<open>WithViper\<close>, \<open>SettingsFromViper\<close>) are not part of this development.
\<close>

datatype SOption =
    WithLogger Logger
  | WithName string
  | WithDatabaseSettings string "DBOption list"
  | WithDefaultPoolOptions "PoolOption list"

text \<open>The body of each \<open>PoolOption\<close> closure, on the struct its pointer refers to.\<close>

fun applyPoolOption :: "PoolOption \<Rightarrow> poolSettings \<Rightarrow> poolSettings" where
  "applyPoolOption (WithMaxIdleConns n) ps = ps\<lparr>MaxIdleConns := n\<rparr>"
| "applyPoolOption (WithMaxOpenConns n) ps = ps\<lparr>MaxOpenConns := n\<rparr>"
| "applyPoolOption (WithConnMaxIdleTime d) ps = ps\<lparr>ConnMaxIdleTime := d\<rparr>"
| "applyPoolOption (WithConnMaxLifeTime d) ps = ps\<lparr>ConnMaxLifeTime := d\<rparr>"
| "applyPoolOption (WithLogLevel l) ps = ps\<lparr>Log_Level := l\<rparr>"
| "applyPoolOption (WithTracing b) ps = ps\<lparr>Trace_Enabled := b\<rparr>"
| "applyPoolOption (WithPingTimeout d) ps = ps\<lparr>PingTimeout := d\<rparr>"
| "applyPoolOption (WithSetClause param v) ps = ps\<lparr>SetParams := AList.update param v (SetParams ps)\<rparr>"

text \<open>\<open>for _, apply := range opts { apply(ps) }\<close> with \<open>ps\<close> a pointer: each option writes
  through the pointer into the heap.\<close>

fun applyPoolOptions :: "PoolOption list \<Rightarrow> ptr option \<Rightarrow> world \<Rightarrow> world outcome" where
  "applyPoolOptions [] p w = Return w"
| "applyPoolOptions (x # xs) p w =
     (case p of
        None \<Rightarrow> Panic
      | Some a \<Rightarrow>
          (case poolHeap w a of
             None \<Rightarrow> Panic
           | Some ps \<Rightarrow>
               applyPoolOptions xs p (w\<lparr>poolHeap := (poolHeap w)(a \<mapsto> applyPoolOption x ps)\<rparr>)))"

definition poolSettingsFromOptions :: "PoolOption list \<Rightarrow> world \<Rightarrow> (ptr option \<times> world) outcome" where
  "poolSettingsFromOptions opts w =
     (let ps = PGConfig_s (defaultSettings w) in
      case applyPoolOptions opts ps w of
        Panic \<Rightarrow> Panic
      | Return w' \<Rightarrow> Return (ps, w'))"

text \<open>\<open>WithPoolSettings\<close> allocates a fresh \<open>poolSettings\<close> and applies its options to it.\<close>

fun applyDBOption :: "DBOption \<Rightarrow> databaseSettings \<Rightarrow> world \<Rightarrow> databaseSettings \<times> world" where
  "applyDBOption (WithURL u) dbs w = (dbs\<lparr>URL := u\<rparr>, w)"
| "applyDBOption (WithUser u) dbs w = (dbs\<lparr>User := u\<rparr>, w)"
| "applyDBOption (WithPassword p) dbs w = (dbs\<lparr>Password := p\<rparr>, w)"
| "applyDBOption (WithPoolSettings opts) dbs w =
     (let a = nextPtr w;
          ps = foldl (\<lambda>ps x. applyPoolOption x ps) zero_poolSettings opts
      in (dbs\<lparr>PGConfig := Some a\<rparr>,
          w\<lparr>poolHeap := (poolHeap w)(a \<mapsto> ps), nextPtr := Suc a\<rparr>))"

fun applyDBOptions :: "DBOption list \<Rightarrow> databaseSettings \<Rightarrow> world \<Rightarrow> databaseSettings \<times> world" where
  "applyDBOptions [] dbs w = (dbs, w)"
| "applyDBOptions (x # xs) dbs w =
     (case applyDBOption x dbs w of (dbs', w') \<Rightarrow> applyDBOptions xs dbs' w')"

definition databaseSettingsFromOptions :: "DBOption list \<Rightarrow> world \<Rightarrow> databaseSettings \<times> world" where
  "databaseSettingsFromOptions opts w =
     (let dbs = (case readMap w (Databases (defaultSettings w)) DefaultDBAlias of
                   None \<Rightarrow> zero_databaseSettings
                 | Some d \<Rightarrow> d)
      in applyDBOptions opts dbs w)"

text \<open>The body of each \<open>Option\<close> closure, on the local draft \<open>s\<close> of \<open>settingsFromOptions\<close>.\<close>

fun applyOption :: "SOption \<Rightarrow> settings \<Rightarrow> world \<Rightarrow> (settings \<times> world) outcome" where
  "applyOption (WithLogger lg) s w = Return (s\<lparr>logger := lg\<rparr>, w)"
| "applyOption (WithName a) s w = Return (s\<lparr>app := a\<rparr>, w)"
| "applyOption (WithDatabaseSettings alias opts) s w =
     (case databaseSettingsFromOptions opts w of
        (dbs, w1) \<Rightarrow>
          (case Databases s of
             None \<Rightarrow> Panic
           | Some m \<Rightarrow>
               (case mapHeap w1 m of
                  None \<Rightarrow> Panic
                | Some mp \<Rightarrow> Return (s, w1\<lparr>mapHeap := (mapHeap w1)(m \<mapsto> mp(alias \<mapsto> dbs))\<rparr>))))"
| "applyOption (WithDefaultPoolOptions opts) s w =
     (case poolSettingsFromOptions opts w of
        Panic \<Rightarrow> Panic
      | Return (ps, w') \<Rightarrow> Return (s\<lparr>PGConfig_s := ps\<rparr>, w'))"

fun applyOptions :: "SOption list \<Rightarrow> settings \<Rightarrow> world \<Rightarrow> (settings \<times> world) outcome" where
  "applyOptions [] s w = Return (s, w)"
| "applyOptions (x # xs) s w =
     (case applyOption x s w of
        Panic \<Rightarrow> Panic
      | Return (s', w') \<Rightarrow> applyOptions xs s' w')"

definition settingsFromOptions :: "SOption list \<Rightarrow> world \<Rightarrow> (settings \<times> world) outcome" where
  "settingsFromOptions opts w = applyOptions opts (defaultSettings w) w"

definition SetDefaults :: "SOption list \<Rightarrow> world \<Rightarrow> world outcome" where
  "SetDefaults opts w =
     (case settingsFromOptions opts w of
        Panic \<Rightarrow> Panic
      | Return (s, w') \<Rightarrow> Return (w'\<lparr>defaultSettings := s\<rparr>))"

section \<open>Settings resolution (settings.go)\<close>

definition DBSettingsFor :: "world \<Rightarrow> settings \<Rightarrow> string \<Rightarrow> databaseSettings" where
  "DBSettingsFor w s db =
     (case readMap w (Databases s) db of
        None \<Rightarrow>
          (case readMap w (Databases s) DefaultDBAlias of
             Some defaultDBSettings \<Rightarrow> defaultDBSettings
           | None \<Rightarrow> zero_databaseSettings)
      | Some dbConfig \<Rightarrow>
          (if PGConfig dbConfig = None then dbConfig\<lparr>PGConfig := PGConfig_s s\<rparr> else dbConfig))"

definition maxWait :: "world \<Rightarrow> databaseSettings \<Rightarrow> Duration outcome" where
  "maxWait w r =
     (if PGConfig r = None then
        (case deref w (PGConfig_s (defaultSettings w)) of
           Panic \<Rightarrow> Panic
         | Return d \<Rightarrow> Return (PingTimeout d))
      else
        (case deref w (PGConfig r) of
           Panic \<Rightarrow> Panic
         | Return ps \<Rightarrow>
             if PingTimeout ps < Second then
               (case deref w (PGConfig_s (defaultSettings w)) of
                  Panic \<Rightarrow> Panic
                | Return d \<Rightarrow> Return (PingTimeout d))
             else Return (PingTimeout ps)))"

section \<open>Errors, contexts and the outside world\<close>

text \<open>
  Go errors: the package's sentinels, \<open>sql.ErrNoRows\<close>, an error known by its message
  (\<open>errors.New\<close>, \<open>fmt.Errorf\<close> without \<open>%w\<close>, or any error of a library or of the server),
  \<open>errors.Join\<close>, and \<open>fmt.Errorf("prefix%w", err)\<close>.
\<close>

datatype error =
    ErrDBNotInitialized
  | ErrInvalidConfig
  | ErrPGAuth
  | ErrInvalidPGURL
  | ErrNoRows
  | ErrorString string
  | Join error error
  | Wrap string error

fun Error :: "error \<Rightarrow> string" where
  "Error ErrDBNotInitialized = ''db not initialized''"
| "Error ErrInvalidConfig = ''invalid config''"
| "Error ErrPGAuth = ''postgres authentication error''"
| "Error ErrInvalidPGURL = ''DB URL is invalid''"
| "Error ErrNoRows = ''sql: no rows in result set''"
| "Error (ErrorString m) = m"
| "Error (Join a b) = Error a @ [CHR 0x0A] @ Error b"
| "Error (Wrap p e) = p @ Error e"

text \<open>\<open>errors.Is\<close>: the error itself or one it wraps or joins.\<close>

fun Is :: "error \<Rightarrow> error \<Rightarrow> bool" where
  "Is (Join a b) t = (Join a b = t \<or> Is a t \<or> Is b t)"
| "Is (Wrap p e) t = (Wrap p e = t \<or> Is e t)"
| "Is e t = (e = t)"

text \<open>\<open>strings.Contains\<close> and \<open>strings.TrimPrefix\<close>.\<close>

fun Contains :: "string \<Rightarrow> string \<Rightarrow> bool" where
  "Contains [] sub = (sub = [])"
| "Contains (c # cs) sub = (take (length sub) (c # cs) = sub \<or> Contains cs sub)"

definition TrimPrefix :: "string \<Rightarrow> string \<Rightarrow> string" where
  "TrimPrefix s p = (if take (length p) s = p then drop (length p) s else s)"

text \<open>
  A context is the background context, a cancellable child, or a child with a deadline
  (an instant in nanoseconds). \<open>context.WithTimeout(parent, d)\<close> is
  \<open>WithDeadline(parent, time.Now().Add(d))\<close>.
\<close>

datatype "context" = Background | WithCancel "context" | WithDeadline "context" int

record url_URL =
  Scheme :: string
  Userinfo :: string
  Host :: string
  Path :: string
  RawQuery :: string

datatype LogLevel =
    LogLevelTrace | LogLevelDebug | LogLevelInfo | LogLevelWarn | LogLevelError | LogLevelNone

text \<open>
  What the code sets or reads of a \<open>pgx.ConnConfig\<close>: the connection string it was parsed
  from, the credentials, the database, the \<open>SET\<close> commands that \<open>AfterConnect\<close> runs,
  the runtime parameters and the level of the tracer.
\<close>

record ConnConfig =
  cc_ConnString :: string
  cc_User :: string
  cc_Password :: string
  cc_Database :: string
  cc_AfterConnect :: "(string \<times> string) list"
  cc_RuntimeParams :: "(string \<times> string) list"
  cc_Tracer :: "LogLevel option"

text \<open>A \<open>*sql.DB\<close> (and the \<open>*sqlx.DB\<close> around it): the driver and the configuration it was
  opened on. A \<open>*sqlx.Tx\<close> is a handle.\<close>

record DB =
  db_driver :: string
  db_config :: ConnConfig

type_synonym Tx = nat

datatype TraceOption =
    WithAllowRoot bool
  | WithLastInsertID bool
  | WithQuery bool
  | WithQueryParams bool
  | WithRowsAffected bool
  | WithRowsClose bool
  | WithInstanceName string

text \<open>The two cases of the \<open>select\<close> in \<open>waitPing\<close>.\<close>

datatype event = Tick | Deadline

text \<open>
  The libraries and the server are parameters: \<open>'s\<close> is the state of everything outside
  the package (server, driver registry, clock). \<open>Ticks\<close> is the scheduler's choice: how
  many times the ticker's case of the \<open>select\<close> is taken before the timer's case is.
  \<open>Await\<close> is the state once the \<open>select\<close> has blocked until that case was ready.
  \<open>sql_Open\<close> stands for \<open>stdlib.RegisterConnConfig\<close> followed by \<open>sql.Open\<close> on the
  registered name.
\<close>

record 's extern =
  ExpandEnv :: "string \<Rightarrow> string"
  url_Parse :: "string \<Rightarrow> error + url_URL"
  url_String :: "url_URL \<Rightarrow> string"
  url_Redacted :: "string \<Rightarrow> string"
  pgx_ParseConfig :: "string \<Rightarrow> error + ConnConfig"
  LogLevelFromString :: "string \<Rightarrow> error + LogLevel"
  Now :: "'s \<Rightarrow> int"
  RegisterWithSource :: "string \<Rightarrow> ConnConfig \<Rightarrow> TraceOption list \<Rightarrow> 's \<Rightarrow> (error + string) \<times> 's"
  sql_Open :: "string \<Rightarrow> ConnConfig \<Rightarrow> 's \<Rightarrow> error option \<times> 's"
  PingContext :: "DB \<Rightarrow> context \<Rightarrow> 's \<Rightarrow> error option \<times> 's"
  Ticks :: "'s \<Rightarrow> nat"
  Await :: "event \<Rightarrow> 's \<Rightarrow> 's"
  BeginTxx :: "DB \<Rightarrow> context \<Rightarrow> 's \<Rightarrow> (error + Tx) \<times> 's"
  QueryRowScan :: "Tx \<Rightarrow> context \<Rightarrow> string \<Rightarrow> string \<Rightarrow> 's \<Rightarrow> error option \<times> 's"
  ExecContext :: "DB \<Rightarrow> context \<Rightarrow> string \<Rightarrow> 's \<Rightarrow> error option \<times> 's"
  Commit :: "Tx \<Rightarrow> 's \<Rightarrow> error option \<times> 's"
  Close :: "DB \<Rightarrow> 's \<Rightarrow> error option \<times> 's"

text \<open>Every call that leaves the package is recorded, in order.\<close>

datatype call =
    CallRegisterWithSource string ConnConfig
  | CallOpen string ConnConfig
  | CallPing "context"
  | CallSetMaxIdleConns int
  | CallSetMaxOpenConns int
  | CallSetConnMaxLifetime Duration
  | CallSetConnMaxIdleTime Duration
  | CallBegin
  | CallQuery string string
  | CallExec string
  | CallCommit
  | CallClose

record 's run =
  outside :: 's
  calls :: "call list"

definition ping :: "'s extern \<Rightarrow> DB \<Rightarrow> context \<Rightarrow> 's run \<Rightarrow> error option \<times> 's run" where
  "ping ext db ctx st =
     (case PingContext ext db ctx (outside st) of
        (err, s') \<Rightarrow> (err, \<lparr>outside = s', calls = calls st @ [CallPing ctx]\<rparr>))"

definition await :: "'s extern \<Rightarrow> event \<Rightarrow> 's run \<Rightarrow> 's run" where
  "await ext ev st = st\<lparr>outside := Await ext ev (outside st)\<rparr>"

section \<open>The availability probe (pgrepo.go)\<close>

definition errShouldReturn :: "error \<Rightarrow> bool \<times> error" where
  "errShouldReturn err =
     (if Contains (Error err) ''SQLSTATE 28'' then (True, Join ErrPGAuth err)
      else if Contains (Error err) ''SQLSTATE 3D'' then (True, err)
      else (False, err))"

text \<open>The first statement of \<open>waitPing\<close>: the wait it works with.\<close>

definition waitPing_maxWait :: "Duration \<Rightarrow> Duration" where
  "waitPing_maxWait d = (if d < Second then Second else d)"

text \<open>
  The \<open>for { select { ... } }\<close> loop, by the number of ticks taken before the timer's
  case. On the timer's case the last attempt runs under a context of its own; its error
  goes to \<open>errShouldReturn\<close> unchecked, and \<open>err.Error()\<close> on a nil error panics.
\<close>

fun waitPing_loop ::
  "'s extern \<Rightarrow> context \<Rightarrow> DB \<Rightarrow> Duration \<Rightarrow> context \<Rightarrow> nat \<Rightarrow> 's run \<Rightarrow> (error option \<times> 's run) outcome"
where
  "waitPing_loop ext ctx db mw ctxTimeout 0 st =
     (let st1 = await ext Deadline st;
          ctxLastTimeout = WithDeadline ctx (Now ext (outside st1) + mw)
      in case ping ext db ctxLastTimeout st1 of
           (None, st2) \<Rightarrow> Panic
         | (Some err, st2) \<Rightarrow> Return (Some (snd (errShouldReturn err)), st2))"
| "waitPing_loop ext ctx db mw ctxTimeout (Suc n) st =
     (case ping ext db ctxTimeout (await ext Tick st) of
        (None, st2) \<Rightarrow> Return (None, st2)
      | (Some err, st2) \<Rightarrow>
          (case errShouldReturn err of
             (True, err') \<Rightarrow> Return (Some err', st2)
           | (False, err') \<Rightarrow> waitPing_loop ext ctx db mw ctxTimeout n st2))"

definition waitPing ::
  "'s extern \<Rightarrow> context \<Rightarrow> DB \<Rightarrow> Duration \<Rightarrow> 's run \<Rightarrow> (error option \<times> 's run) outcome"
where
  "waitPing ext ctx db d st =
     (let mw = waitPing_maxWait d;
          ctxTimeout = WithDeadline ctx (Now ext (outside st) + mw)
      in case ping ext db ctxTimeout st of
           (None, st1) \<Rightarrow> Return (None, st1)
         | (Some err, st1) \<Rightarrow>
             (case errShouldReturn err of
                (True, err') \<Rightarrow> Return (Some err', st1)
              | (False, err') \<Rightarrow>
                  waitPing_loop ext ctx db mw ctxTimeout (Ticks ext (outside st1)) st1))"

section \<open>Opening a pool (pgrepo.go, settings.go)\<close>

definition SetPool :: "world \<Rightarrow> databaseSettings \<Rightarrow> call list outcome" where
  "SetPool w r =
     (if PGConfig r = None then Return []
      else case deref w (PGConfig r) of
        Panic \<Rightarrow> Panic
      | Return ps \<Rightarrow>
          Return
            ((if MaxIdleConns ps > 0 then [CallSetMaxIdleConns (MaxIdleConns ps)] else []) @
             (if MaxOpenConns ps > 0 then [CallSetMaxOpenConns (MaxOpenConns ps)] else []) @
             (if ConnMaxLifeTime ps > 0 then [CallSetConnMaxLifetime (ConnMaxLifeTime ps)] else [])))"

definition sqlDefaultTraceOptions :: "TraceOption list" where
  "sqlDefaultTraceOptions =
     [WithAllowRoot True, WithLastInsertID True, WithQuery True, WithQueryParams True,
      WithRowsAffected True, WithRowsClose True]"

definition TraceOptions :: "'s extern \<Rightarrow> world \<Rightarrow> databaseSettings \<Rightarrow> string \<Rightarrow> TraceOption list outcome" where
  "TraceOptions ext w r u =
     (if PGConfig r = None then Return []
      else case deref w (PGConfig r) of
        Panic \<Rightarrow> Panic
      | Return ps \<Rightarrow>
          if \<not> Trace_Enabled ps then Return []
          else Return (sqlDefaultTraceOptions @ [WithInstanceName (url_Redacted ext u)]))"

definition driverName :: string where
  "driverName = ''pgx''"

text \<open>\<open>Repository.open\<close>, on the embedded \<open>databaseSettings\<close> of the receiver.\<close>

definition open_pool ::
  "'s extern \<Rightarrow> world \<Rightarrow> databaseSettings \<Rightarrow> context \<Rightarrow> ConnConfig option \<Rightarrow> 's run
     \<Rightarrow> ((error + DB) \<times> 's run) outcome"
where
  "open_pool ext w s ctx dcfg st =
     (case dcfg of
        None \<Rightarrow> Return (Inl ErrInvalidConfig, st)
      | Some cfg \<Rightarrow>
          (case TraceOptions ext w s (cc_ConnString cfg) of
             Panic \<Rightarrow> Panic
           | Return opts \<Rightarrow>
               (case (if opts \<noteq> []
                      then (case RegisterWithSource ext driverName cfg opts (outside st) of
                              (r, s') \<Rightarrow>
                                (r, \<lparr>outside = s',
                                     calls = calls st @ [CallRegisterWithSource driverName cfg]\<rparr>))
                      else (Inr driverName, st)) of
                  (Inl err, st1) \<Rightarrow> Return (Inl err, st1)
                | (Inr instrumentedDriver, st1) \<Rightarrow>
                    (case sql_Open ext instrumentedDriver cfg (outside st1) of
                       (oerr, s2) \<Rightarrow>
                         (let st2 = \<lparr>outside = s2,
                                    calls = calls st1 @ [CallOpen instrumentedDriver cfg]\<rparr>;
                              db = \<lparr>db_driver = instrumentedDriver, db_config = cfg\<rparr>
                          in case oerr of
                               Some err \<Rightarrow> Return (Inl err, st2)
                             | None \<Rightarrow>
                                 (case maxWait w s of
                                    Panic \<Rightarrow> Panic
                                  | Return mw \<Rightarrow>
                                      (case waitPing ext ctx db mw st2 of
                                         Panic \<Rightarrow> Panic
                                       | Return (Some err, st3) \<Rightarrow> Return (Inl err, st3)
                                       | Return (None, st3) \<Rightarrow>
                                           (case SetPool w s of
                                              Panic \<Rightarrow> Panic
                                            | Return cs \<Rightarrow>
                                                Return (Inr db, st3\<lparr>calls := calls st3 @ cs\<rparr>)))))))))"

section \<open>Validation and driver configuration (settings.go)\<close>

definition DBURL :: "'s extern \<Rightarrow> databaseSettings \<Rightarrow> string" where
  "DBURL ext r = ExpandEnv ext (URL r)"

definition RedactedURL :: "'s extern \<Rightarrow> databaseSettings \<Rightarrow> string" where
  "RedactedURL ext r = url_Redacted ext (DBURL ext r)"

definition validateURL :: "'s extern \<Rightarrow> string \<Rightarrow> error option" where
  "validateURL ext v =
     (if v = [] then Some (ErrorString ''connection string is required'')
      else case url_Parse ext v of Inl err \<Rightarrow> Some err | Inr u \<Rightarrow> None)"

text \<open>The verb \<open>%q\<close> of a name without characters to escape.\<close>

definition quoted :: "string \<Rightarrow> string" where
  "quoted s = [CHR 0x22] @ s @ [CHR 0x22]"

definition Validate :: "'s extern \<Rightarrow> world \<Rightarrow> databaseSettings \<Rightarrow> error option outcome" where
  "Validate ext w r =
     (case validateURL ext (DBURL ext r) of
        Some err \<Rightarrow> Return (Some err)
      | None \<Rightarrow>
          (case pgx_ParseConfig ext (DBURL ext r) of
             Inl err \<Rightarrow> Return (Some (ErrorString (''invalid connection string: '' @ Error err)))
           | Inr c \<Rightarrow>
               if PGConfig r = None then Return None
               else case deref w (PGConfig r) of
                 Panic \<Rightarrow> Panic
               | Return ps \<Rightarrow>
                   if Log_Level ps = [] then Return None
                   else case LogLevelFromString ext (Log_Level ps) of
                     Inl err \<Rightarrow>
                       Return (Some (Wrap (''invalid log level for pgx driver ['' @
                                           quoted (Log_Level ps) @ '']: '') err))
                   | Inr l \<Rightarrow> Return None))"

text \<open>\<open>LogLevelFromString\<close> returns the level 0 with its error: no level at all.\<close>

definition defaultLevel :: "'s extern \<Rightarrow> LogLevel option" where
  "defaultLevel ext =
     (case LogLevelFromString ext DefaultLogLevel of Inl err \<Rightarrow> None | Inr l \<Rightarrow> Some l)"

definition LogLevel_of :: "'s extern \<Rightarrow> world \<Rightarrow> databaseSettings \<Rightarrow> LogLevel option outcome" where
  "LogLevel_of ext w r =
     (if PGConfig r = None then Return (defaultLevel ext)
      else case deref w (PGConfig r) of
        Panic \<Rightarrow> Panic
      | Return ps \<Rightarrow>
          (case LogLevelFromString ext (Log_Level ps) of
             Inl err \<Rightarrow> Return (defaultLevel ext)
           | Inr l \<Rightarrow> Return (Some l)))"

text \<open>
  \<open>LogLevel\<close> and \<open>ConnConfig\<close> of the source are \<open>LogLevel_of\<close> and
  \<open>ConnConfig_of\<close> here, \<open>Repository.open\<close> is \<open>open_pool\<close>.
  \<open>ConnConfig\<close> returns nil on a string that does not parse. At the level
  \<open>LogLevelTrace\<close> the \<open>switch\<close> leaves \<open>driverLogger\<close> nil, and the call
  \<open>tr.Logger.Log\<close> that ends the function panics. Logging is left out.
\<close>

definition ConnConfig_of ::
  "'s extern \<Rightarrow> world \<Rightarrow> databaseSettings \<Rightarrow> string \<Rightarrow> string \<Rightarrow> ConnConfig option outcome"
where
  "ConnConfig_of ext w r u ap =
     (case pgx_ParseConfig ext u of
        Inl err \<Rightarrow> Return None
      | Inr dcfg0 \<Rightarrow>
          (let rtParams = (if ap \<noteq> [] then [(''application_name'', ap)] else []);
               user = ExpandEnv ext (User r);
               dcfg1 = (if user \<noteq> [] then dcfg0\<lparr>cc_User := user\<rparr> else dcfg0);
               password = ExpandEnv ext (Password r);
               dcfg2 = (if password \<noteq> [] then dcfg1\<lparr>cc_Password := password\<rparr> else dcfg1)
           in case (if PGConfig r = None then Return dcfg2
                    else case deref w (PGConfig r) of
                      Panic \<Rightarrow> Panic
                    | Return ps \<Rightarrow>
                        Return (if SetParams ps \<noteq> []
                                then dcfg2\<lparr>cc_AfterConnect := SetParams ps\<rparr> else dcfg2)) of
                Panic \<Rightarrow> Panic
              | Return dcfg3 \<Rightarrow>
                  (case LogLevel_of ext w r of
                     Panic \<Rightarrow> Panic
                   | Return pgxLevel \<Rightarrow>
                       if pgxLevel = Some LogLevelTrace then Panic
                       else Return (Some (dcfg3\<lparr>cc_Tracer := pgxLevel,
                                                 cc_RuntimeParams := rtParams\<rparr>)))))"

definition SwitchDB :: "'s extern \<Rightarrow> databaseSettings \<Rightarrow> string \<Rightarrow> error + databaseSettings" where
  "SwitchDB ext r dbName =
     (case url_Parse ext (DBURL ext r) of
        Inl err \<Rightarrow> Inl err
      | Inr u \<Rightarrow> Inr (r\<lparr>URL := url_String ext (u\<lparr>Path := ''/'' @ dbName\<rparr>)\<rparr>))"

section \<open>The repository (pgrepo.go)\<close>

record Repository =
  r_db :: "DB option"
  r_app :: string
  r_settings :: databaseSettings

definition New :: "string \<Rightarrow> SOption list \<Rightarrow> world \<Rightarrow> (Repository \<times> world) outcome" where
  "New dbAlias opts w =
     (case settingsFromOptions opts w of
        Panic \<Rightarrow> Panic
      | Return (s, w') \<Rightarrow>
          Return (\<lparr>r_db = None, r_app = app s, r_settings = DBSettingsFor w' s dbAlias\<rparr>, w'))"

definition Start ::
  "'s extern \<Rightarrow> world \<Rightarrow> Repository \<Rightarrow> 's run \<Rightarrow> (error option \<times> Repository \<times> 's run) outcome"
where
  "Start ext w r st =
     (let s = r_settings r in
      case Validate ext w s of
        Panic \<Rightarrow> Panic
      | Return (Some err) \<Rightarrow> Return (Some err, r, st)
      | Return None \<Rightarrow>
          (case ConnConfig_of ext w s (DBURL ext s) (r_app r) of
             Panic \<Rightarrow> Panic
           | Return connCfg \<Rightarrow>
               (case open_pool ext w s Background connCfg st of
                  Panic \<Rightarrow> Panic
                | Return (Inl err, st') \<Rightarrow> Return (Some err, r, st')
                | Return (Inr db, st') \<Rightarrow> Return (None, r\<lparr>r_db := Some db\<rparr>, st'))))"

definition close_db :: "'s extern \<Rightarrow> DB \<Rightarrow> 's run \<Rightarrow> error option \<times> 's run" where
  "close_db ext db st =
     (case Close ext db (outside st) of
        (err, s') \<Rightarrow> (err, \<lparr>outside = s', calls = calls st @ [CallClose]\<rparr>))"

definition Stop :: "'s extern \<Rightarrow> Repository \<Rightarrow> 's run \<Rightarrow> error option \<times> 's run" where
  "Stop ext r st =
     (case r_db r of
        None \<Rightarrow> (None, st)
      | Some db \<Rightarrow> close_db ext db st)"

definition HealthCheck ::
  "'s extern \<Rightarrow> world \<Rightarrow> Repository \<Rightarrow> 's run \<Rightarrow> (error option \<times> 's run) outcome"
where
  "HealthCheck ext w r st =
     (case r_db r of
        None \<Rightarrow> Return (Some ErrDBNotInitialized, st)
      | Some db \<Rightarrow>
          (case deref w (PGConfig (r_settings r)) of
             Panic \<Rightarrow> Panic
           | Return ps \<Rightarrow>
               Return (ping ext db (WithDeadline Background (Now ext (outside st) + PingTimeout ps)) st)))"

section \<open>Provisioning (create.go)\<close>

definition connectNoDB ::
  "'s extern \<Rightarrow> world \<Rightarrow> context \<Rightarrow> string \<Rightarrow> databaseSettings \<Rightarrow> 's run
     \<Rightarrow> ((error + DB) \<times> 's run) outcome"
where
  "connectNoDB ext w ctx dsn s0 st =
     (case url_Parse ext dsn of
        Inl err \<Rightarrow> Return (Inl (Join ErrInvalidPGURL err), st)
      | Inr u0 \<Rightarrow>
          (let u = u0\<lparr>Path := ''postgres''\<rparr>;
               s = s0\<lparr>URL := url_String ext u\<rparr>
           in case Validate ext w s of
                Panic \<Rightarrow> Panic
              | Return (Some err) \<Rightarrow> Return (Inl err, st)
              | Return None \<Rightarrow>
                  (case ConnConfig_of ext w s (DBURL ext s) [] of
                     Panic \<Rightarrow> Panic
                   | Return connCfg \<Rightarrow>
                       (case open_pool ext w s ctx connCfg st of
                          Panic \<Rightarrow> Panic
                        | Return (Inl err, st') \<Rightarrow>
                            Return (Inl (Wrap (''could not connect to database server '' @
                                               url_String ext u @ '': '') err), st')
                        | Return (Inr db, st') \<Rightarrow> Return (Inr db, st')))))"

definition begin_tx :: "'s extern \<Rightarrow> DB \<Rightarrow> context \<Rightarrow> 's run \<Rightarrow> (error + Tx) \<times> 's run" where
  "begin_tx ext db ctx st =
     (case BeginTxx ext db ctx (outside st) of
        (r, s') \<Rightarrow> (r, \<lparr>outside = s', calls = calls st @ [CallBegin]\<rparr>))"

definition exec_sql :: "'s extern \<Rightarrow> DB \<Rightarrow> context \<Rightarrow> string \<Rightarrow> 's run \<Rightarrow> error option \<times> 's run" where
  "exec_sql ext db ctx q st =
     (case ExecContext ext db ctx q (outside st) of
        (err, s') \<Rightarrow> (err, \<lparr>outside = s', calls = calls st @ [CallExec q]\<rparr>))"

definition commit_tx :: "'s extern \<Rightarrow> Tx \<Rightarrow> 's run \<Rightarrow> error option \<times> 's run" where
  "commit_tx ext tx st =
     (case Commit ext tx (outside st) of
        (err, s') \<Rightarrow> (err, \<lparr>outside = s', calls = calls st @ [CallCommit]\<rparr>))"

definition existsQuery :: string where
  "existsQuery = ''SELECT datname FROM pg_database WHERE datname = $1''"

definition dbExists ::
  "'s extern \<Rightarrow> context \<Rightarrow> Tx \<Rightarrow> string \<Rightarrow> 's run \<Rightarrow> (bool \<times> error option) \<times> 's run"
where
  "dbExists ext ctx tx dbName st =
     (case QueryRowScan ext tx ctx existsQuery dbName (outside st) of
        (err, s') \<Rightarrow>
          (let st' = \<lparr>outside = s', calls = calls st @ [CallQuery existsQuery dbName]\<rparr>
           in case err of
                None \<Rightarrow> ((True, None), st')
              | Some e \<Rightarrow> if Is e ErrNoRows then ((False, None), st') else ((False, Some e), st')))"

text \<open>
  The statements of \<open>CreateDB\<close> after \<open>defer closer()\<close>, on the open administrative
  connection; \<open>CreateDB\<close> runs \<open>closer\<close> after them on every path.
\<close>

definition CreateDB_tx ::
  "'s extern \<Rightarrow> context \<Rightarrow> DB \<Rightarrow> string \<Rightarrow> 's run \<Rightarrow> (bool \<times> error option) \<times> 's run"
where
  "CreateDB_tx ext ctx db dbName st =
     (case begin_tx ext db ctx st of
        (Inl err, st1) \<Rightarrow> ((False, Some err), st1)
      | (Inr tx, st1) \<Rightarrow>
          (case dbExists ext ctx tx dbName st1 of
             ((ok, Some err), st2) \<Rightarrow> ((False, Some err), st2)
           | ((ok, None), st2) \<Rightarrow>
               if ok then (case commit_tx ext tx st2 of (ignored, st3) \<Rightarrow> ((False, None), st3))
               else
                 (case exec_sql ext db ctx (''CREATE DATABASE '' @ dbName) st2 of
                    (Some err, st3) \<Rightarrow>
                      ((False, Some (Wrap (''could not create database '' @ dbName @ '': '') err)), st3)
                  | (None, st3) \<Rightarrow>
                      (case commit_tx ext tx st3 of
                         (Some err, st4) \<Rightarrow>
                           ((False, Some (Wrap (''could not create database '' @ dbName @ '': '') err)), st4)
                       | (None, st4) \<Rightarrow> ((True, None), st4)))))"

text \<open>The database to create: under the default alias, the name in the path of the URL.\<close>

definition CreateDB_dbName :: "'s extern \<Rightarrow> string \<Rightarrow> databaseSettings \<Rightarrow> error + string" where
  "CreateDB_dbName ext dbName0 dbs =
     (if dbName0 = DefaultDBAlias
      then (case url_Parse ext (URL dbs) of
              Inl err \<Rightarrow> Inl err
            | Inr u \<Rightarrow> Inr (TrimPrefix (Path u) ''/''))
      else Inr dbName0)"

definition CreateDB ::
  "'s extern \<Rightarrow> context \<Rightarrow> string \<Rightarrow> SOption list \<Rightarrow> world \<Rightarrow> 's run
     \<Rightarrow> ((bool \<times> error option) \<times> world \<times> 's run) outcome"
where
  "CreateDB ext parentCtx dbName0 opts w0 st =
     (case settingsFromOptions opts w0 of
        Panic \<Rightarrow> Panic
      | Return (s, w) \<Rightarrow>
          (let dbs = DBSettingsFor w s dbName0 in
           if URL dbs = [] then
             Return ((False, Some (ErrorString
               (''no database URL found in config file. Expected  '' @ quoted ''url'' @
                '' in config section '' @ quoted dbName0))), w, st)
           else
             (case CreateDB_dbName ext dbName0 dbs of
                Inl err \<Rightarrow> Return ((False, Some err), w, st)
              | Inr dbName \<Rightarrow>
                  (let ctx = WithCancel parentCtx in
                   case connectNoDB ext w ctx (URL dbs) dbs st of
                     Panic \<Rightarrow> Panic
                   | Return (Inl err, st1) \<Rightarrow> Return ((False, Some err), w, st1)
                   | Return (Inr db, st1) \<Rightarrow>
                       (case CreateDB_tx ext ctx db dbName st1 of
                          (res, st2) \<Rightarrow> Return (res, w, snd (close_db ext db st2)))))))"

text \<open>The statements of \<open>DropDB\<close> after \<open>defer closer()\<close>.\<close>

definition DropDB_tx ::
  "'s extern \<Rightarrow> context \<Rightarrow> DB \<Rightarrow> string \<Rightarrow> 's run \<Rightarrow> (bool \<times> error option) \<times> 's run"
where
  "DropDB_tx ext ctx db dbName st =
     (case begin_tx ext db ctx st of
        (Inl err, st1) \<Rightarrow> ((False, Some err), st1)
      | (Inr tx, st1) \<Rightarrow>
          (case dbExists ext ctx tx dbName st1 of
             ((ok, Some err), st2) \<Rightarrow> ((False, Some err), st2)
           | ((ok, None), st2) \<Rightarrow>
               if \<not> ok then ((False, None), st2)
               else
                 (case exec_sql ext db ctx (''DROP DATABASE IF EXISTS '' @ dbName) st2 of
                    (Some err, st3) \<Rightarrow>
                      ((False, Some (Wrap (''could not drop database '' @ dbName @ '': '') err)), st3)
                  | (None, st3) \<Rightarrow>
                      (case commit_tx ext tx st3 of
                         (Some err, st4) \<Rightarrow>
                           ((False, Some (Wrap (''could not drop database '' @ dbName @ '': '') err)), st4)
                       | (None, st4) \<Rightarrow> ((True, None), st4)))))"

definition DropDB ::
  "'s extern \<Rightarrow> context \<Rightarrow> string \<Rightarrow> SOption list \<Rightarrow> world \<Rightarrow> 's run
     \<Rightarrow> ((bool \<times> error option) \<times> world \<times> 's run) outcome"
where
  "DropDB ext parentCtx dbName opts w0 st =
     (let ctx = WithCancel parentCtx in
      case settingsFromOptions opts w0 of
        Panic \<Rightarrow> Panic
      | Return (s, w) \<Rightarrow>
          (let dbs = DBSettingsFor w s dbName in
           case connectNoDB ext w ctx (URL dbs) dbs st of
             Panic \<Rightarrow> Panic
           | Return (Inl err, st1) \<Rightarrow> Return ((False, Some err), w, st1)
           | Return (Inr db, st1) \<Rightarrow>
               (case DropDB_tx ext ctx db dbName st1 of
                  (res, st2) \<Rightarrow> Return (res, w, snd (close_db ext db st2)))))"

definition EnsureDB ::
  "'s extern \<Rightarrow> context \<Rightarrow> string \<Rightarrow> SOption list \<Rightarrow> world \<Rightarrow> 's run
     \<Rightarrow> ((DB option \<times> bool \<times> error option) \<times> world \<times> 's run) outcome"
where
  "EnsureDB ext ctx dbName opts w0 st =
     (case settingsFromOptions opts w0 of
        Panic \<Rightarrow> Panic
      | Return (s, w1) \<Rightarrow>
          (case (if dbName \<noteq> DefaultDBAlias
                 then SwitchDB ext (DBSettingsFor w1 s dbName) dbName
                 else Inr (DBSettingsFor w1 s dbName)) of
             Inl err \<Rightarrow> Return ((None, False, Some err), w1, st)
           | Inr dbs \<Rightarrow>
               (case CreateDB ext ctx dbName opts w1 st of
                  Panic \<Rightarrow> Panic
                | Return ((created, Some err), w2, st1) \<Rightarrow> Return ((None, True, Some err), w2, st1)
                | Return ((created, None), w2, st1) \<Rightarrow>
                    (case ConnConfig_of ext w2 dbs (DBURL ext dbs) [] of
                       Panic \<Rightarrow> Panic
                     | Return connCfg \<Rightarrow>
                         (case open_pool ext w2 dbs ctx connCfg st1 of
                            Panic \<Rightarrow> Panic
                          | Return (Inl err, st2) \<Rightarrow>
                              Return ((None, created,
                                       Some (Wrap (''could not connect to database server '' @
                                                   RedactedURL ext dbs @ '': '') err)), w2, st2)
                          | Return (Inr db, st2) \<Rightarrow> Return ((Some db, created, None), w2, st2))))))"

section \<open>A simulated server and library\<close>

text \<open>
  A small outside world to run the package against: a clock, the catalog of databases,
  the replies that the next pings get (success once they are used up) and the number of
  ticks the scheduler lets through before the timer. URLs are of the shape
  \<open>scheme://[user@]host[/path][?query]\<close>.
\<close>

record sim =
  clock :: int
  catalog :: "string list"
  pings :: "error option list"
  ticks :: nat

fun splitAt :: "string \<Rightarrow> string \<Rightarrow> (string \<times> string) option" where
  "splitAt sep [] = (if sep = [] then Some ([], []) else None)"
| "splitAt sep (c # cs) =
     (if take (length sep) (c # cs) = sep then Some ([], drop (length sep) (c # cs))
      else (case splitAt sep cs of None \<Rightarrow> None | Some (a, b) \<Rightarrow> Some (c # a, b)))"

definition sim_Parse :: "string \<Rightarrow> error + url_URL" where
  "sim_Parse s =
     (case splitAt ''://'' s of
        None \<Rightarrow> Inl (ErrorString ''missing protocol scheme'')
      | Some (sch, rest) \<Rightarrow>
          (let hq = (case splitAt ''?'' rest of None \<Rightarrow> (rest, []) | Some (a, b) \<Rightarrow> (a, b));
               authority = takeWhile (\<lambda>c. c \<noteq> CHR ''/'') (fst hq);
               uh = (case splitAt ''@'' authority of None \<Rightarrow> ([], authority) | Some (a, b) \<Rightarrow> (a, b))
           in Inr \<lparr>Scheme = sch, Userinfo = fst uh, Host = snd uh,
                   Path = dropWhile (\<lambda>c. c \<noteq> CHR ''/'') (fst hq), RawQuery = snd hq\<rparr>))"

definition sim_String :: "url_URL \<Rightarrow> string" where
  "sim_String u =
     Scheme u @ ''://'' @ (if Userinfo u \<noteq> [] then Userinfo u @ ''@'' else []) @ Host u @
     (if Path u \<noteq> [] \<and> take 1 (Path u) \<noteq> ''/'' \<and> Host u \<noteq> [] then ''/'' else []) @ Path u @
     (if RawQuery u \<noteq> [] then ''?'' @ RawQuery u else [])"

definition sim_ParseConfig :: "string \<Rightarrow> error + ConnConfig" where
  "sim_ParseConfig s =
     (case sim_Parse s of
        Inl err \<Rightarrow> Inl err
      | Inr u \<Rightarrow>
          Inr \<lparr>cc_ConnString = s, cc_User = Userinfo u, cc_Password = [],
               cc_Database = TrimPrefix (Path u) ''/'', cc_AfterConnect = [],
               cc_RuntimeParams = [], cc_Tracer = None\<rparr>)"

definition sim_LogLevel :: "string \<Rightarrow> error + LogLevel" where
  "sim_LogLevel l =
     (if l = ''trace'' then Inr LogLevelTrace
      else if l = ''debug'' then Inr LogLevelDebug
      else if l = ''info'' then Inr LogLevelInfo
      else if l = ''warn'' then Inr LogLevelWarn
      else if l = ''error'' then Inr LogLevelError
      else if l = ''none'' then Inr LogLevelNone
      else Inl (ErrorString ''invalid log level''))"

definition sim_Ping :: "sim \<Rightarrow> error option \<times> sim" where
  "sim_Ping s = (case pings s of [] \<Rightarrow> (None, s) | r # rs \<Rightarrow> (r, s\<lparr>pings := rs\<rparr>))"

definition sim_Exec :: "string \<Rightarrow> sim \<Rightarrow> error option \<times> sim" where
  "sim_Exec q s =
     (if take 16 q = ''CREATE DATABASE ''
      then (if drop 16 q \<in> set (catalog s)
            then (Some (ErrorString ''ERROR: database already exists (SQLSTATE 42P04)''), s)
            else (None, s\<lparr>catalog := drop 16 q # catalog s\<rparr>))
      else if take 24 q = ''DROP DATABASE IF EXISTS ''
      then (None, s\<lparr>catalog := removeAll (drop 24 q) (catalog s)\<rparr>)
      else (None, s))"

definition sim_ext :: "sim extern" where
  "sim_ext =
     \<lparr>ExpandEnv = (\<lambda>s. s),
      url_Parse = sim_Parse,
      url_String = sim_String,
      url_Redacted = (\<lambda>s. s),
      pgx_ParseConfig = sim_ParseConfig,
      LogLevelFromString = sim_LogLevel,
      Now = clock,
      RegisterWithSource = (\<lambda>d c os s. (Inr (''ocsql-'' @ d), s)),
      sql_Open = (\<lambda>d c s. (None, s)),
      PingContext = (\<lambda>db ctx s. sim_Ping s),
      Ticks = ticks,
      Await = (\<lambda>ev s. s\<lparr>clock := clock s + Second\<rparr>),
      BeginTxx = (\<lambda>db ctx s. (Inr 0, s)),
      QueryRowScan = (\<lambda>tx ctx q a s. (if a \<in> set (catalog s) then None else Some ErrNoRows, s)),
      ExecContext = (\<lambda>db ctx q s. sim_Exec q s),
      Commit = (\<lambda>tx s. (None, s)),
      Close = (\<lambda>db s. (None, s))\<rparr>"

definition sim0 :: "sim run" where
  "sim0 = \<lparr>outside = \<lparr>clock = 0, catalog = [''postgres''], pings = [], ticks = 0\<rparr>, calls = []\<rparr>"

definition sim_db :: DB where
  "sim_db =
     \<lparr>db_driver = driverName,
      db_config = \<lparr>cc_ConnString = DefaultURL, cc_User = ''postgres'', cc_Password = [],
                   cc_Database = ''testdb'', cc_AfterConnect = [], cc_RuntimeParams = [],
                   cc_Tracer = Some LogLevelWarn\<rparr>\<rparr>"

text \<open>
  The package state after
  \<open>settingsFromOptions(WithDatabaseSettings("db", WithPoolSettings(WithPingTimeout(500ms))))\<close>
  on the initial state, and the settings of the alias \<open>db\<close> in it.
\<close>

definition halfSecond_pool :: poolSettings where
  "halfSecond_pool = zero_poolSettings\<lparr>PingTimeout := 500000000\<rparr>"

definition halfSecond_dbs :: databaseSettings where
  "halfSecond_dbs = \<lparr>URL = DefaultURL, User = [], Password = [], PGConfig = Some 1\<rparr>"

definition halfSecond_world :: world where
  "halfSecond_world =
     init_world
       \<lparr>poolHeap := [0 \<mapsto> init_poolSettings, 1 \<mapsto> halfSecond_pool],
        mapHeap := [0 \<mapsto> [DefaultDBAlias \<mapsto> zero_databaseSettings\<lparr>URL := DefaultURL\<rparr>,
                           ''db'' \<mapsto> halfSecond_dbs]],
        nextPtr := 2\<rparr>"

text \<open>Errors of the driver, and servers that answer the first pings with them.\<close>

definition authError :: error where
  "authError = ErrorString ''FATAL: password authentication failed (SQLSTATE 28P01)''"

definition catalogError :: error where
  "catalogError = ErrorString ''FATAL: database does not exist (SQLSTATE 3D000)''"

definition refusedError :: error where
  "refusedError = ErrorString ''dial tcp 127.0.0.1:5432: connect: connection refused''"

definition sim_pings :: "error option list \<Rightarrow> nat \<Rightarrow> sim run" where
  "sim_pings rs n =
     \<lparr>outside = \<lparr>clock = 0, catalog = [''postgres''], pings = rs, ticks = n\<rparr>, calls = []\<rparr>"

text \<open>The shipped default alias against the simulated server: its URL, the URL and the
  configuration of the administrative connection, and states of the server by their
  catalog and the calls recorded so far.\<close>

definition adminURL :: string where
  "adminURL = ''postgresql://postgres@localhost:5432/postgres?sslmode=disable''"

definition default_url :: url_URL where
  "default_url = \<lparr>Scheme = ''postgresql'', Userinfo = ''postgres'', Host = ''localhost:5432'',
                   Path = ''/testdb'', RawQuery = ''sslmode=disable''\<rparr>"

definition admin_cfg :: ConnConfig where
  "admin_cfg = \<lparr>cc_ConnString = adminURL, cc_User = ''postgres'', cc_Password = [],
                 cc_Database = ''postgres'', cc_AfterConnect = [], cc_RuntimeParams = [],
                 cc_Tracer = Some LogLevelWarn\<rparr>"

definition admin_db :: DB where
  "admin_db = \<lparr>db_driver = driverName, db_config = admin_cfg\<rparr>"

definition default_dbs :: "ptr option \<Rightarrow> databaseSettings" where
  "default_dbs p = \<lparr>URL = DefaultURL, User = [], Password = [], PGConfig = p\<rparr>"

definition sim_state :: "string list \<Rightarrow> call list \<Rightarrow> sim run" where
  "sim_state cat cs = \<lparr>outside = \<lparr>clock = 0, catalog = cat, pings = [], ticks = 0\<rparr>, calls = cs\<rparr>"

definition admin_calls :: "context \<Rightarrow> ptr option \<Rightarrow> call list" where
  "admin_calls ctx p =
     [CallOpen driverName admin_cfg, CallPing (WithDeadline ctx (10 * Second))] @
     (if p = None then [] else [CallSetMaxIdleConns 2])"

text \<open>The server after a first ping refused for its password, and a repository as \<open>New\<close>
  makes it for the default alias.\<close>

definition sim_auth_failed :: "context \<Rightarrow> ConnConfig \<Rightarrow> sim run" where
  "sim_auth_failed ctx cfg =
     \<lparr>outside = \<lparr>clock = 0, catalog = [''postgres''], pings = [], ticks = 0\<rparr>,
      calls = [CallOpen driverName cfg, CallPing (WithDeadline ctx (10 * Second))]\<rparr>"

definition fresh_repo :: Repository where
  "fresh_repo = \<lparr>r_db = None, r_app = [], r_settings = default_dbs (Some 0)\<rparr>"

section \<open>Properties of the settings\<close>

lemma deref_Return_iff:
  "deref w p = Return ps \<longleftrightarrow> (\<exists>a. p = Some a \<and> poolHeap w a = Some ps)"
  by (auto simp: deref_def split: option.splits)

lemma halfSecond_reached:
  "settingsFromOptions
     [WithDatabaseSettings ''db'' [WithPoolSettings [WithPingTimeout 500000000]]] init_world =
   Return (defaultSettings init_world, halfSecond_world)"
  by (simp add: settingsFromOptions_def databaseSettingsFromOptions_def readMap_def
      init_world_def halfSecond_world_def halfSecond_dbs_def halfSecond_pool_def Let_def
      zero_databaseSettings_def DefaultDBAlias_def)

lemma halfSecond_resolved:
  "DBSettingsFor halfSecond_world (defaultSettings init_world) ''db'' = halfSecond_dbs"
  by (simp add: DBSettingsFor_def readMap_def init_world_def halfSecond_world_def
      halfSecond_dbs_def DefaultDBAlias_def)

lemma halfSecond_deref:
  "deref halfSecond_world (PGConfig halfSecond_dbs) = Return halfSecond_pool"
  by (simp add: deref_def halfSecond_world_def halfSecond_dbs_def init_world_def)

lemma halfSecond_default:
  "deref halfSecond_world (PGConfig_s (defaultSettings halfSecond_world)) = Return init_poolSettings"
  by (simp add: deref_def halfSecond_world_def init_world_def)

text \<open>
  C1 as stated (the wait is exactly one second) fails. With the shipped defaults, a pool whose ping timeout
  is 500ms gets a maximum wait of ten seconds from \<open>maxWait\<close>; \<open>waitPing\<close> keeps it, and
  its probe runs under a deadline ten seconds away, not one.
\<close>

theorem C1_one_second_counterexample:
  "deref halfSecond_world (PGConfig halfSecond_dbs) = Return halfSecond_pool \<and>
   0 < PingTimeout halfSecond_pool \<and> PingTimeout halfSecond_pool < Second \<and>
   maxWait halfSecond_world halfSecond_dbs = Return (10 * Second) \<and>
   waitPing_maxWait (10 * Second) \<noteq> Second \<and>
   waitPing sim_ext Background sim_db (10 * Second) sim0 =
     Return (None, sim0\<lparr>calls := [CallPing (WithDeadline Background (10 * Second))]\<rparr>)"
  by (simp add: maxWait_def deref_def halfSecond_world_def halfSecond_dbs_def halfSecond_pool_def
      init_world_def init_poolSettings_def zero_poolSettings_def Second_def
      waitPing_def waitPing_maxWait_def ping_def sim_ext_def sim0_def sim_Ping_def)

text \<open>
  C1, amended: for a pool whose ping timeout is positive and below one second, \<open>maxWait\<close>
  returns the ping timeout of the package-level default pool settings, and \<open>waitPing\<close>
  works with that value, raised to one second only when it is itself below one second.
\<close>

theorem C1_max_wait_is_default_ping_timeout:
  assumes "deref w (PGConfig r) = Return ps"
      and "0 < PingTimeout ps" and "PingTimeout ps < Second"
      and "deref w (PGConfig_s (defaultSettings w)) = Return d"
  shows "maxWait w r = Return (PingTimeout d) \<and>
         waitPing_maxWait (PingTimeout d) = max Second (PingTimeout d) \<and>
         waitPing ext ctx db (PingTimeout d) st =
           waitPing ext ctx db (max Second (PingTimeout d)) st"
proof -
  from assms(1) have "PGConfig r \<noteq> None"
    by (auto simp: deref_Return_iff)
  with assms show ?thesis
    by (auto simp: maxWait_def waitPing_def waitPing_maxWait_def max_def)
qed

theorem C1_max_wait_witness:
  "maxWait halfSecond_world halfSecond_dbs = Return (10 * Second) \<and>
   waitPing_maxWait (10 * Second) = 10 * Second"
proof -
  have t: "0 < PingTimeout halfSecond_pool" "PingTimeout halfSecond_pool < Second"
    by (simp_all add: halfSecond_pool_def Second_def)
  have d: "PingTimeout init_poolSettings = 10 * Second"
    by (simp add: init_poolSettings_def)
  from C1_max_wait_is_default_ping_timeout [OF halfSecond_deref t halfSecond_default]
  show ?thesis
    by (simp add: d Second_def)
qed

text \<open>The three cases of \<open>DBSettingsFor\<close>.\<close>

lemma DBSettingsFor_absent:
  "readMap w (Databases s) db = None \<Longrightarrow>
   DBSettingsFor w s db =
     (case readMap w (Databases s) DefaultDBAlias of
        Some d \<Rightarrow> d
      | None \<Rightarrow> zero_databaseSettings)"
  by (simp add: DBSettingsFor_def split: option.splits)

lemma DBSettingsFor_inherit:
  "readMap w (Databases s) db = Some c \<Longrightarrow> PGConfig c = None \<Longrightarrow>
   DBSettingsFor w s db = c\<lparr>PGConfig := PGConfig_s s\<rparr>"
  by (simp add: DBSettingsFor_def)

lemma DBSettingsFor_override:
  "readMap w (Databases s) db = Some c \<Longrightarrow> PGConfig c = Some a \<Longrightarrow>
   DBSettingsFor w s db = c"
  by (simp add: DBSettingsFor_def)

text \<open>
  C2 at the shipped defaults: the alias \<open>unittest_db\<close> is not configured, the global pool
  settings are set, and the settings of the default alias come back with no pool
  settings at all.
\<close>

theorem C2_fallback_keeps_nil_pool_settings:
  "readMap init_world (Databases (defaultSettings init_world)) ''unittest_db'' = None \<and>
   PGConfig_s (defaultSettings init_world) = Some 0 \<and>
   DBSettingsFor init_world (defaultSettings init_world) ''unittest_db'' =
     \<lparr>URL = DefaultURL, User = [], Password = [], PGConfig = None\<rparr>"
  by (simp add: DBSettingsFor_def readMap_def init_world_def zero_databaseSettings_def
      DefaultDBAlias_def)

text \<open>
  C3 at \<open>settingsFromOptions(WithDefaultPoolOptions(WithLogLevel("debug")))\<close> on the
  initial state: the call returns, and the pool settings that \<open>defaultSettings.PGConfig\<close>
  points to now hold the level \<open>debug\<close>, although \<open>SetDefaults\<close> was not called.
\<close>

theorem C3_defaults_mutated:
  "deref init_world (PGConfig_s (defaultSettings init_world)) = Return init_poolSettings \<and>
   settingsFromOptions [WithDefaultPoolOptions [WithLogLevel ''debug'']] init_world =
     Return (defaultSettings init_world,
             init_world\<lparr>poolHeap := [0 \<mapsto> init_poolSettings\<lparr>Log_Level := ''debug''\<rparr>]\<rparr>) \<and>
   deref (init_world\<lparr>poolHeap := [0 \<mapsto> init_poolSettings\<lparr>Log_Level := ''debug''\<rparr>]\<rparr>)
     (PGConfig_s (defaultSettings init_world)) =
     Return (init_poolSettings\<lparr>Log_Level := ''debug''\<rparr>) \<and>
   init_poolSettings\<lparr>Log_Level := ''debug''\<rparr> \<noteq> init_poolSettings"
  apply (simp add: settingsFromOptions_def poolSettingsFromOptions_def deref_def init_world_def Let_def)
  apply (simp add: init_poolSettings_def DefaultLogLevel_def)
  done

text \<open>The same through the shared map: \<open>WithDatabaseSettings\<close> writes the entry of the
  default alias into the map of \<open>defaultSettings\<close>.\<close>

lemma defaults_map_mutated:
  "settingsFromOptions [WithDatabaseSettings ''default'' [WithPassword ''postgres'']] init_world =
     Return (defaultSettings init_world,
             init_world\<lparr>mapHeap := [0 \<mapsto> [DefaultDBAlias \<mapsto>
                \<lparr>URL = DefaultURL, User = [], Password = ''postgres'', PGConfig = None\<rparr>]]\<rparr>)"
  by (simp add: settingsFromOptions_def databaseSettingsFromOptions_def readMap_def
      init_world_def Let_def zero_databaseSettings_def DefaultDBAlias_def)

text \<open>\<open>SetPool\<close> never sets the idle time of connections.\<close>

lemma SetPool_never_idle_time:
  "SetPool w r = Return cs \<Longrightarrow> CallSetConnMaxIdleTime d \<notin> set cs"
  by (auto simp: SetPool_def split: if_splits outcome.splits)

text \<open>
  C10 at a pool configuration with \<open>ConnMaxIdleTime\<close> of five minutes (the other fields as
  shipped): \<open>SetPool\<close> sets the number of idle connections and nothing else.
\<close>

theorem C10_idle_time_not_applied:
  "SetPool (init_world\<lparr>poolHeap := [0 \<mapsto> init_poolSettings\<lparr>ConnMaxIdleTime := 300 * Second\<rparr>]\<rparr>)
     \<lparr>URL = DefaultURL, User = [], Password = [], PGConfig = Some 0\<rparr> =
   Return [CallSetMaxIdleConns 2]"
  by (simp add: SetPool_def deref_def init_world_def init_poolSettings_def Second_def)

section \<open>Properties of the availability probe\<close>

lemma errShouldReturn_auth:
  "Contains (Error e) ''SQLSTATE 28'' \<Longrightarrow> errShouldReturn e = (True, Join ErrPGAuth e)"
  by (simp add: errShouldReturn_def)

lemma errShouldReturn_catalog:
  "\<not> Contains (Error e) ''SQLSTATE 28'' \<Longrightarrow> Contains (Error e) ''SQLSTATE 3D'' \<Longrightarrow>
   errShouldReturn e = (True, e)"
  by (simp add: errShouldReturn_def)

lemma errShouldReturn_transient:
  "\<not> Contains (Error e) ''SQLSTATE 28'' \<Longrightarrow> \<not> Contains (Error e) ''SQLSTATE 3D'' \<Longrightarrow>
   errShouldReturn e = (False, e)"
  by (simp add: errShouldReturn_def)

lemma ping_calls: "ping ext db c st = (r, st') \<Longrightarrow> calls st' = calls st @ [CallPing c]"
  by (auto simp: ping_def split: prod.splits)

lemma await_calls: "calls (await ext ev st) = calls st"
  by (simp add: await_def)

text \<open>The first probe.\<close>

lemma waitPing_first_ok:
  "ping ext db (WithDeadline ctx (Now ext (outside st) + waitPing_maxWait d)) st = (None, st1) \<Longrightarrow>
   waitPing ext ctx db d st = Return (None, st1)"
  by (simp add: waitPing_def Let_def)

lemma waitPing_first_fatal:
  "ping ext db (WithDeadline ctx (Now ext (outside st) + waitPing_maxWait d)) st = (Some e, st1) \<Longrightarrow>
   fst (errShouldReturn e) \<Longrightarrow>
   waitPing ext ctx db d st = Return (Some (snd (errShouldReturn e)), st1)"
  by (cases "errShouldReturn e") (simp add: waitPing_def Let_def)

text \<open>One turn of the loop: the ticker's case, then the timer's.\<close>

lemma waitPing_loop_tick_ok:
  "ping ext db cT (await ext Tick st) = (None, st2) \<Longrightarrow>
   waitPing_loop ext ctx db mw cT (Suc n) st = Return (None, st2)"
  by simp

lemma waitPing_loop_tick_fatal:
  "ping ext db cT (await ext Tick st) = (Some e, st2) \<Longrightarrow> fst (errShouldReturn e) \<Longrightarrow>
   waitPing_loop ext ctx db mw cT (Suc n) st = Return (Some (snd (errShouldReturn e)), st2)"
  by (cases "errShouldReturn e") simp

lemma waitPing_loop_tick_retry:
  "ping ext db cT (await ext Tick st) = (Some e, st2) \<Longrightarrow> \<not> fst (errShouldReturn e) \<Longrightarrow>
   waitPing_loop ext ctx db mw cT (Suc n) st = waitPing_loop ext ctx db mw cT n st2"
  by (cases "errShouldReturn e") simp

lemma waitPing_loop_deadline:
  "ping ext db (WithDeadline ctx (Now ext (outside (await ext Deadline st)) + mw))
     (await ext Deadline st) = (Some e, st2) \<Longrightarrow>
   waitPing_loop ext ctx db mw cT 0 st = Return (Some (snd (errShouldReturn e)), st2)"
  by (simp add: Let_def)

text \<open>When the last attempt succeeds, \<open>errShouldReturn(nil)\<close> panics.\<close>

lemma waitPing_loop_deadline_ok_panics:
  "ping ext db (WithDeadline ctx (Now ext (outside (await ext Deadline st)) + mw))
     (await ext Deadline st) = (None, st2) \<Longrightarrow>
   waitPing_loop ext ctx db mw cT 0 st = Panic"
  by (simp add: Let_def)

declare waitPing_loop.simps [simp del]

lemma waitPing_last_attempt_success_panics:
  "waitPing sim_ext Background sim_db Second (sim_pings [Some refusedError] 0) = Panic"
  by (simp add: waitPing_def waitPing_maxWait_def ping_def await_def sim_ext_def sim_pings_def
      sim_Ping_def Let_def errShouldReturn_def refusedError_def Second_def waitPing_loop.simps)

text \<open>
  The probes of the loop, as recorded: some probes under the shared context, then
  either nothing (a probe succeeded or its error was fatal) or, once every tick is
  used, one last probe under a context with a deadline of its own, whose classified
  error is the result.
\<close>

lemma waitPing_loop_shape:
  "waitPing_loop ext ctx db mw cT n st = Return (res, st') \<Longrightarrow>
   \<exists>k cs. k \<le> n \<and> calls st' = calls st @ replicate k (CallPing cT) @ cs \<and>
     (cs = [] \<and> 1 \<le> k \<or>
      k = n \<and> (\<exists>t e. cs = [CallPing (WithDeadline ctx (t + mw))] \<and>
                       res = Some (snd (errShouldReturn e))))"
proof (induction n arbitrary: st)
  case 0
  let ?cL = "WithDeadline ctx (Now ext (outside (await ext Deadline st)) + mw)"
  obtain r st2 where p: "ping ext db ?cL (await ext Deadline st) = (r, st2)"
    by (cases "ping ext db ?cL (await ext Deadline st)")
  from ping_calls [OF p] have c2: "calls st2 = calls st @ [CallPing ?cL]"
    by (simp add: await_calls)
  from "0.prems" p obtain e where "r = Some e" "res = Some (snd (errShouldReturn e))" "st' = st2"
    by (cases r) (simp_all add: waitPing_loop_deadline waitPing_loop_deadline_ok_panics)
  with c2 show ?case
    by (intro exI [of _ 0] exI [of _ "[CallPing ?cL]"]) auto
next
  case (Suc n)
  obtain r st2 where p: "ping ext db cT (await ext Tick st) = (r, st2)"
    by (cases "ping ext db cT (await ext Tick st)")
  from ping_calls [OF p] have c2: "calls st2 = calls st @ [CallPing cT]"
    by (simp add: await_calls)
  show ?case
  proof (cases r)
    case None
    with Suc.prems p have "st' = st2"
      by (simp add: waitPing_loop_tick_ok)
    with c2 show ?thesis
      by (intro exI [of _ 1] exI [of _ "[]"]) simp
  next
    case (Some e)
    show ?thesis
    proof (cases "fst (errShouldReturn e)")
      case True
      with Suc.prems p Some have "st' = st2"
        by (simp add: waitPing_loop_tick_fatal)
      with c2 show ?thesis
        by (intro exI [of _ 1] exI [of _ "[]"]) simp
    next
      case False
      with Suc.prems p Some have "waitPing_loop ext ctx db mw cT n st2 = Return (res, st')"
        by (simp add: waitPing_loop_tick_retry)
      from Suc.IH [OF this] obtain k cs where k: "k \<le> n"
          "calls st' = calls st2 @ replicate k (CallPing cT) @ cs"
          "cs = [] \<and> 1 \<le> k \<or>
           k = n \<and> (\<exists>t e. cs = [CallPing (WithDeadline ctx (t + mw))] \<and>
                       res = Some (snd (errShouldReturn e)))"
        by blast
      from k(2) have "calls st' = calls st @ replicate (Suc k) (CallPing cT) @ cs"
        by (simp add: c2)
      with k(1,3) show ?thesis
        by (intro exI [of _ "Suc k"] exI [of _ cs]) auto
    qed
  qed
qed

lemma waitPing_shape:
  assumes "waitPing ext ctx db d st = Return (res, st')"
  shows "\<exists>k cs. 1 \<le> k \<and>
           calls st' = calls st @
             replicate k (CallPing (WithDeadline ctx (Now ext (outside st) + waitPing_maxWait d))) @ cs \<and>
           (cs = [] \<or>
            (\<exists>t e. cs = [CallPing (WithDeadline ctx (t + waitPing_maxWait d))] \<and>
                   res = Some (snd (errShouldReturn e))))"
proof -
  let ?cT = "WithDeadline ctx (Now ext (outside st) + waitPing_maxWait d)"
  obtain r st1 where p: "ping ext db ?cT st = (r, st1)"
    by (cases "ping ext db ?cT st")
  from ping_calls [OF p] have c1: "calls st1 = calls st @ [CallPing ?cT]" .
  show ?thesis
  proof (cases r)
    case None
    with assms p have "st' = st1"
      by (simp add: waitPing_first_ok)
    with c1 show ?thesis
      by (intro exI [of _ 1] exI [of _ "[]"]) simp
  next
    case (Some e)
    show ?thesis
    proof (cases "fst (errShouldReturn e)")
      case True
      with assms p Some have "st' = st1"
        by (simp add: waitPing_first_fatal)
      with c1 show ?thesis
        by (intro exI [of _ 1] exI [of _ "[]"]) simp
    next
      case False
      with assms p Some have
        "waitPing_loop ext ctx db (waitPing_maxWait d) ?cT (Ticks ext (outside st1)) st1 =
           Return (res, st')"
        by (cases "errShouldReturn e") (simp add: waitPing_def Let_def)
      from waitPing_loop_shape [OF this] obtain k cs where
          "calls st' = calls st1 @ replicate k (CallPing ?cT) @ cs"
          "cs = [] \<and> 1 \<le> k \<or>
           k = Ticks ext (outside st1) \<and>
             (\<exists>t e. cs = [CallPing (WithDeadline ctx (t + waitPing_maxWait d))] \<and>
                    res = Some (snd (errShouldReturn e)))"
        by blast
      then show ?thesis
        by (intro exI [of _ "Suc k"] exI [of _ cs]) (auto simp: c1)
    qed
  qed
qed

text \<open>
  C6 as stated fails: the probes do not all share one deadline context.
  Against a server that refuses the first two pings, with no tick before the timer, the
  first probe runs under a deadline one second after the start and the last attempt under
  a deadline of its own, one second after the timer fired.
\<close>

theorem C6_shared_deadline_counterexample:
  "waitPing sim_ext Background sim_db Second (sim_pings [Some refusedError, Some refusedError] 0) =
     Return (Some refusedError,
       \<lparr>outside = \<lparr>clock = Second, catalog = [''postgres''], pings = [], ticks = 0\<rparr>,
        calls = [CallPing (WithDeadline Background Second),
                 CallPing (WithDeadline Background (2 * Second))]\<rparr>) \<and>
   WithDeadline Background Second \<noteq> WithDeadline Background (2 * Second)"
  by (simp add: waitPing_def waitPing_maxWait_def ping_def await_def sim_ext_def sim_pings_def
      sim_Ping_def Let_def errShouldReturn_def refusedError_def Second_def waitPing_loop.simps)

text \<open>
  C6, amended. An error whose message holds \<open>SQLSTATE 28\<close> is fatal and comes back joined
  to \<open>ErrPGAuth\<close>; one whose message holds \<open>SQLSTATE 3D\<close> is fatal and comes back as it
  is. A fatal error of the first probe or of a probe on a tick is returned at once, with
  no further probe; any other error of a probe on a tick leads to the next turn of the
  loop. When the timer fires, one last probe runs under a fresh context whose deadline is
  a further maximum wait away, and when it fails its classified error is returned. In
  every run that returns, the first probe and the probes on ticks all ran under the one
  context derived from the maximum wait, and only the last attempt, if any, did not.
\<close>

theorem C6_waitPing_probes:
  "(Contains (Error e) ''SQLSTATE 28'' \<longrightarrow>
      errShouldReturn e = (True, Join ErrPGAuth e) \<and> Is (Join ErrPGAuth e) ErrPGAuth) \<and>
   (\<not> Contains (Error e) ''SQLSTATE 28'' \<and> Contains (Error e) ''SQLSTATE 3D'' \<longrightarrow>
      errShouldReturn e = (True, e)) \<and>
   (ping ext db (WithDeadline ctx (Now ext (outside st) + waitPing_maxWait d)) st = (Some e, st1) \<and>
    fst (errShouldReturn e) \<longrightarrow>
      waitPing ext ctx db d st = Return (Some (snd (errShouldReturn e)), st1)) \<and>
   (ping ext db cT (await ext Tick st) = (Some e, st1) \<and> fst (errShouldReturn e) \<longrightarrow>
      waitPing_loop ext ctx db mw cT (Suc n) st = Return (Some (snd (errShouldReturn e)), st1)) \<and>
   (ping ext db cT (await ext Tick st) = (Some e, st1) \<and> \<not> fst (errShouldReturn e) \<longrightarrow>
      waitPing_loop ext ctx db mw cT (Suc n) st = waitPing_loop ext ctx db mw cT n st1) \<and>
   (ping ext db (WithDeadline ctx (Now ext (outside (await ext Deadline st)) + mw))
      (await ext Deadline st) = (Some e, st1) \<longrightarrow>
      waitPing_loop ext ctx db mw cT 0 st = Return (Some (snd (errShouldReturn e)), st1)) \<and>
   (waitPing ext ctx db d st = Return (res, st') \<longrightarrow>
      (\<exists>k cs. 1 \<le> k \<and>
         calls st' = calls st @
           replicate k (CallPing (WithDeadline ctx (Now ext (outside st) + waitPing_maxWait d))) @ cs \<and>
         (cs = [] \<or>
          (\<exists>t e'. cs = [CallPing (WithDeadline ctx (t + waitPing_maxWait d))] \<and>
                  res = Some (snd (errShouldReturn e'))))))"
  using waitPing_shape [of ext ctx db d st res st']
  by (simp add: errShouldReturn_auth errShouldReturn_catalog waitPing_first_fatal
      waitPing_loop_tick_fatal waitPing_loop_tick_retry waitPing_loop_deadline)

theorem C6_waitPing_witness:
  "waitPing sim_ext Background sim_db Second (sim_pings [Some authError] 0) =
     Return (Some (Join ErrPGAuth authError),
             (sim_pings [] 0)\<lparr>calls := [CallPing (WithDeadline Background Second)]\<rparr>) \<and>
   Is (Join ErrPGAuth authError) ErrPGAuth \<and>
   errShouldReturn catalogError = (True, catalogError) \<and>
   waitPing_loop sim_ext Background sim_db Second (WithDeadline Background Second) (Suc 0)
       (sim_pings [Some catalogError] 0) =
     Return (Some catalogError,
             \<lparr>outside = \<lparr>clock = Second, catalog = [''postgres''], pings = [], ticks = 0\<rparr>,
              calls = [CallPing (WithDeadline Background Second)]\<rparr>) \<and>
   waitPing_loop sim_ext Background sim_db Second (WithDeadline Background Second) (Suc 0)
       (sim_pings [Some refusedError, Some refusedError] 0) =
     Return (Some refusedError,
             \<lparr>outside = \<lparr>clock = 2 * Second, catalog = [''postgres''], pings = [], ticks = 0\<rparr>,
              calls = [CallPing (WithDeadline Background Second),
                       CallPing (WithDeadline Background (3 * Second))]\<rparr>) \<and>
   (\<exists>k cs. 1 \<le> k \<and>
      [CallPing (WithDeadline Background Second), CallPing (WithDeadline Background (2 * Second))] =
        replicate k (CallPing (WithDeadline Background Second)) @ cs \<and>
      (cs = [] \<or> (\<exists>t e'. cs = [CallPing (WithDeadline Background (t + Second))] \<and>
                          Some refusedError = Some (snd (errShouldReturn e')))))"
proof -
  have a: "Contains (Error authError) ''SQLSTATE 28''"
    by (simp add: authError_def)
  have c: "\<not> Contains (Error catalogError) ''SQLSTATE 28'' \<and> Contains (Error catalogError) ''SQLSTATE 3D''"
    by (simp add: catalogError_def)
  have r: "\<not> fst (errShouldReturn refusedError)"
    by (simp add: errShouldReturn_def refusedError_def)
  have p1: "ping sim_ext sim_db (WithDeadline Background (Now sim_ext (outside (sim_pings [Some authError] 0)) + waitPing_maxWait Second))
              (sim_pings [Some authError] 0) =
            (Some authError, (sim_pings [] 0)\<lparr>calls := [CallPing (WithDeadline Background Second)]\<rparr>)"
    by (simp add: ping_def sim_ext_def sim_pings_def sim_Ping_def waitPing_maxWait_def)
  have p2: "ping sim_ext sim_db (WithDeadline Background Second) (await sim_ext Tick (sim_pings [Some catalogError] 0)) =
            (Some catalogError, \<lparr>outside = \<lparr>clock = Second, catalog = [''postgres''], pings = [], ticks = 0\<rparr>,
              calls = [CallPing (WithDeadline Background Second)]\<rparr>)"
    by (simp add: ping_def await_def sim_ext_def sim_pings_def sim_Ping_def)
  have p3: "ping sim_ext sim_db (WithDeadline Background Second)
              (await sim_ext Tick (sim_pings [Some refusedError, Some refusedError] 0)) =
            (Some refusedError, \<lparr>outside = \<lparr>clock = Second, catalog = [''postgres''], pings = [Some refusedError], ticks = 0\<rparr>,
              calls = [CallPing (WithDeadline Background Second)]\<rparr>)"
    by (simp add: ping_def await_def sim_ext_def sim_pings_def sim_Ping_def)
  let ?s3 = "\<lparr>outside = \<lparr>clock = Second, catalog = [''postgres''], pings = [Some refusedError], ticks = 0\<rparr>,
              calls = [CallPing (WithDeadline Background Second)]\<rparr>"
  let ?s4 = "\<lparr>outside = \<lparr>clock = 2 * Second, catalog = [''postgres''], pings = [], ticks = 0\<rparr>,
              calls = [CallPing (WithDeadline Background Second),
                       CallPing (WithDeadline Background (3 * Second))]\<rparr>"
  have p4: "ping sim_ext sim_db (WithDeadline Background (Now sim_ext (outside (await sim_ext Deadline ?s3)) + Second))
              (await sim_ext Deadline ?s3) = (Some refusedError, ?s4)"
    by (simp add: ping_def await_def sim_ext_def sim_Ping_def Second_def)
  have w: "waitPing sim_ext Background sim_db Second (sim_pings [Some refusedError, Some refusedError] 0) =
     Return (Some refusedError,
       \<lparr>outside = \<lparr>clock = Second, catalog = [''postgres''], pings = [], ticks = 0\<rparr>,
        calls = [CallPing (WithDeadline Background Second),
                 CallPing (WithDeadline Background (2 * Second))]\<rparr>)"
    by (simp add: waitPing_def waitPing_maxWait_def ping_def await_def sim_ext_def sim_pings_def
        sim_Ping_def Let_def errShouldReturn_def Second_def waitPing_loop.simps refusedError_def)
  have fa: "fst (errShouldReturn authError)" "snd (errShouldReturn authError) = Join ErrPGAuth authError"
    using a by (simp_all add: errShouldReturn_def)
  have fc: "fst (errShouldReturn catalogError)" "snd (errShouldReturn catalogError) = catalogError"
    using c by (simp_all add: errShouldReturn_def)
  have fr: "snd (errShouldReturn refusedError) = refusedError"
    by (simp add: errShouldReturn_def refusedError_def)
  note T1 = C6_waitPing_probes [where e = authError and ext = sim_ext and db = sim_db
      and ctx = Background and st = "sim_pings [Some authError] 0" and d = Second
      and ?st1.0 = "(sim_pings [] 0)\<lparr>calls := [CallPing (WithDeadline Background Second)]\<rparr>"]
  note T2 = C6_waitPing_probes [where e = catalogError and ext = sim_ext and db = sim_db
      and ctx = Background and st = "sim_pings [Some catalogError] 0" and mw = Second
      and cT = "WithDeadline Background Second" and n = 0
      and ?st1.0 = "\<lparr>outside = \<lparr>clock = Second, catalog = [''postgres''], pings = [], ticks = 0\<rparr>,
              calls = [CallPing (WithDeadline Background Second)]\<rparr>"]
  note T3 = C6_waitPing_probes [where e = refusedError and ext = sim_ext and db = sim_db
      and ctx = Background and st = "sim_pings [Some refusedError, Some refusedError] 0" and mw = Second
      and cT = "WithDeadline Background Second" and n = 0 and ?st1.0 = ?s3]
  note T4 = C6_waitPing_probes [where e = refusedError and ext = sim_ext and db = sim_db
      and ctx = Background and st = ?s3 and mw = Second
      and cT = "WithDeadline Background Second" and ?st1.0 = ?s4]
  note T5 = C6_waitPing_probes [where ext = sim_ext and db = sim_db
      and ctx = Background and st = "sim_pings [Some refusedError, Some refusedError] 0" and d = Second
      and res = "Some refusedError"
      and st' = "\<lparr>outside = \<lparr>clock = Second, catalog = [''postgres''], pings = [], ticks = 0\<rparr>,
        calls = [CallPing (WithDeadline Background Second),
                 CallPing (WithDeadline Background (2 * Second))]\<rparr>"]
  have g1: "waitPing sim_ext Background sim_db Second (sim_pings [Some authError] 0) =
     Return (Some (Join ErrPGAuth authError),
             (sim_pings [] 0)\<lparr>calls := [CallPing (WithDeadline Background Second)]\<rparr>)"
    using T1 p1 fa by simp
  have g2: "Is (Join ErrPGAuth authError) ErrPGAuth"
    using T1 a by simp
  have g3: "errShouldReturn catalogError = (True, catalogError)"
    using T2 c by simp
  have g4: "waitPing_loop sim_ext Background sim_db Second (WithDeadline Background Second) (Suc 0)
       (sim_pings [Some catalogError] 0) =
     Return (Some catalogError,
             \<lparr>outside = \<lparr>clock = Second, catalog = [''postgres''], pings = [], ticks = 0\<rparr>,
              calls = [CallPing (WithDeadline Background Second)]\<rparr>)"
    using T2 p2 fc by simp
  have g5: "waitPing_loop sim_ext Background sim_db Second (WithDeadline Background Second) (Suc 0)
       (sim_pings [Some refusedError, Some refusedError] 0) =
      waitPing_loop sim_ext Background sim_db Second (WithDeadline Background Second) 0 ?s3"
    using T3 p3 r by simp
  have g6: "waitPing_loop sim_ext Background sim_db Second (WithDeadline Background Second) 0 ?s3 =
      Return (Some refusedError, ?s4)"
    using T4 p4 fr by simp
  have g7: "\<exists>k cs. 1 \<le> k \<and>
      [CallPing (WithDeadline Background Second), CallPing (WithDeadline Background (2 * Second))] =
        replicate k (CallPing (WithDeadline Background Second)) @ cs \<and>
      (cs = [] \<or> (\<exists>t e'. cs = [CallPing (WithDeadline Background (t + Second))] \<and>
                          Some refusedError = Some (snd (errShouldReturn e'))))"
    using T5 w by (simp add: sim_pings_def sim_ext_def waitPing_maxWait_def)
  from g1 g2 g3 g4 g5 g6 g7 show ?thesis by simp
qed

section \<open>The simulated server, evaluated\<close>

lemma sim_Parse_DefaultURL: "sim_Parse DefaultURL = Inr default_url"
  by code_simp

lemma sim_String_admin: "sim_String (default_url\<lparr>Path := ''postgres''\<rparr>) = adminURL"
  by code_simp

lemma sim_Parse_adminURL: "sim_Parse adminURL = Inr (default_url\<lparr>Path := ''/postgres''\<rparr>)"
  by code_simp

lemma sim_ParseConfig_adminURL: "sim_ParseConfig adminURL = Inr (admin_cfg\<lparr>cc_Tracer := None\<rparr>)"
  by code_simp

lemma sim_LogLevel_warn: "sim_LogLevel DefaultLogLevel = Inr LogLevelWarn"
  by code_simp

lemma URLs_nonempty: "DefaultURL \<noteq> []" "adminURL \<noteq> []"
  by (simp_all add: DefaultURL_def adminURL_def)

lemmas sim_library =
  sim_Parse_DefaultURL sim_String_admin sim_Parse_adminURL sim_ParseConfig_adminURL
  sim_LogLevel_warn URLs_nonempty

lemma sim_Validate_admin:
  "p = None \<or> p = Some 0 \<Longrightarrow>
   Validate sim_ext init_world ((default_dbs p)\<lparr>URL := adminURL\<rparr>) = Return None"
  by (auto simp: Validate_def validateURL_def DBURL_def sim_ext_def default_dbs_def deref_def
      init_world_def init_poolSettings_def sim_library DefaultLogLevel_def [symmetric])

lemma sim_ConnConfig_admin:
  "p = None \<or> p = Some 0 \<Longrightarrow>
   ConnConfig_of sim_ext init_world ((default_dbs p)\<lparr>URL := adminURL\<rparr>) adminURL [] =
     Return (Some admin_cfg)"
  by (auto simp: ConnConfig_of_def LogLevel_of_def defaultLevel_def sim_ext_def default_dbs_def
      deref_def init_world_def init_poolSettings_def sim_library admin_cfg_def Let_def)

lemma sim_open_admin:
  assumes "p = None \<or> p = Some 0"
  shows "open_pool sim_ext init_world ((default_dbs p)\<lparr>URL := adminURL\<rparr>) ctx (Some admin_cfg)
           (sim_state cat cs) =
         Return (Inr admin_db, sim_state cat (cs @ admin_calls ctx p))"
  using assms
  by (auto simp: open_pool_def TraceOptions_def maxWait_def SetPool_def waitPing_def
      waitPing_maxWait_def ping_def sim_Ping_def sim_ext_def default_dbs_def deref_def
      init_world_def init_poolSettings_def admin_db_def Let_def Second_def sim_state_def
      admin_calls_def)

lemma sim_admin_url:
  "url_Parse sim_ext DefaultURL = Inr default_url"
  "url_String sim_ext (default_url\<lparr>Path := ''postgres''\<rparr>) = adminURL"
  "DBURL sim_ext ((default_dbs p)\<lparr>URL := adminURL\<rparr>) = adminURL"
  by (simp_all add: sim_ext_def sim_library DBURL_def)

lemma sim_connect:
  assumes "p = None \<or> p = Some 0"
  shows "connectNoDB sim_ext init_world ctx DefaultURL (default_dbs p) (sim_state cat cs) =
         Return (Inr admin_db, sim_state cat (cs @ admin_calls ctx p))"
  by (simp add: connectNoDB_def sim_admin_url Let_def sim_Validate_admin [OF assms]
      sim_ConnConfig_admin [OF assms] sim_open_admin [OF assms])

lemma sim_begin: "begin_tx sim_ext db ctx (sim_state cat cs) = (Inr 0, sim_state cat (cs @ [CallBegin]))"
  by (simp add: begin_tx_def sim_ext_def sim_state_def)

lemma sim_probe:
  "dbExists sim_ext ctx tx n (sim_state cat cs) =
     ((n \<in> set cat, None), sim_state cat (cs @ [CallQuery existsQuery n]))"
  by (simp add: dbExists_def sim_ext_def sim_state_def Let_def)

lemma sim_create:
  "n \<notin> set cat \<Longrightarrow>
   exec_sql sim_ext db ctx (''CREATE DATABASE '' @ n) (sim_state cat cs) =
     (None, sim_state (n # cat) (cs @ [CallExec (''CREATE DATABASE '' @ n)]))"
  by (simp add: exec_sql_def sim_ext_def sim_state_def sim_Exec_def)

lemma sim_drop:
  "exec_sql sim_ext db ctx (''DROP DATABASE IF EXISTS '' @ n) (sim_state cat cs) =
     (None, sim_state (removeAll n cat) (cs @ [CallExec (''DROP DATABASE IF EXISTS '' @ n)]))"
  by (simp add: exec_sql_def sim_ext_def sim_state_def sim_Exec_def)

lemma sim_commit: "commit_tx sim_ext tx (sim_state cat cs) = (None, sim_state cat (cs @ [CallCommit]))"
  by (simp add: commit_tx_def sim_ext_def sim_state_def)

lemma sim_close: "close_db sim_ext db (sim_state cat cs) = (None, sim_state cat (cs @ [CallClose]))"
  by (simp add: close_db_def sim_ext_def sim_state_def)

lemma sim_settings:
  "settingsFromOptions [] init_world = Return (defaultSettings init_world, init_world)"
  by (simp add: settingsFromOptions_def)

lemma sim_resolved:
  "DBSettingsFor init_world (defaultSettings init_world) n =
     default_dbs (if n = DefaultDBAlias then Some 0 else None)"
  by (simp add: DBSettingsFor_def readMap_def init_world_def default_dbs_def zero_databaseSettings_def)

lemma sim_dbName:
  "CreateDB_dbName sim_ext n (default_dbs p) = Inr (if n = DefaultDBAlias then ''testdb'' else n)"
  by (simp add: CreateDB_dbName_def sim_admin_url default_dbs_def default_url_def TrimPrefix_def)

lemma URL_default_dbs: "URL (default_dbs p) = DefaultURL"
  by (simp add: default_dbs_def)

lemma authError_fatal: "errShouldReturn authError = (True, Join ErrPGAuth authError)"
  by (simp add: errShouldReturn_def authError_def)

lemma sim_open_auth:
  "open_pool sim_ext init_world (default_dbs (Some 0)\<lparr>URL := u\<rparr>) ctx (Some cfg)
     (sim_pings [Some authError] 0) =
   Return (Inl (Join ErrPGAuth authError), sim_auth_failed ctx cfg)"
  by (simp add: open_pool_def TraceOptions_def maxWait_def waitPing_def
      waitPing_maxWait_def ping_def sim_Ping_def sim_ext_def default_dbs_def deref_def
      init_world_def init_poolSettings_def Let_def Second_def sim_pings_def
      sim_auth_failed_def authError_fatal)

lemma sim_connect_auth:
  "connectNoDB sim_ext init_world ctx DefaultURL (default_dbs (Some 0)) (sim_pings [Some authError] 0) =
   Return (Inl (Wrap (''could not connect to database server '' @ adminURL @ '': '')
                  (Join ErrPGAuth authError)),
           sim_auth_failed ctx admin_cfg)"
  by (simp add: connectNoDB_def sim_admin_url Let_def sim_Validate_admin
      sim_ConnConfig_admin sim_open_auth)

lemma sim_CreateDB_auth:
  "CreateDB sim_ext ctx DefaultDBAlias [] init_world (sim_pings [Some authError] 0) =
   Return ((False, Some (Wrap (''could not connect to database server '' @ adminURL @ '': '')
                           (Join ErrPGAuth authError))),
           init_world, sim_auth_failed (WithCancel ctx) admin_cfg)"
  by (simp add: CreateDB_def sim_settings sim_resolved URL_default_dbs URLs_nonempty sim_dbName
      sim_connect_auth Let_def)

lemma sim_ParseConfig_DefaultURL:
  "sim_ParseConfig DefaultURL = Inr ((db_config sim_db)\<lparr>cc_Tracer := None\<rparr>)"
  by code_simp

lemma sim_New: "New DefaultDBAlias [] init_world = Return (fresh_repo, init_world)"
proof -
  have "app (defaultSettings init_world) = []"
    by (simp add: init_world_def)
  then show ?thesis
    by (simp add: New_def sim_settings sim_resolved fresh_repo_def)
qed

lemma sim_Start_auth:
  "Start sim_ext init_world fresh_repo (sim_pings [Some authError] 0) =
   Return (Some (Join ErrPGAuth authError), fresh_repo,
           sim_auth_failed Background (db_config sim_db))"
proof -
  have v: "Validate sim_ext init_world (default_dbs (Some 0)) = Return None"
    by (simp add: Validate_def validateURL_def DBURL_def sim_ext_def default_dbs_def deref_def
        init_world_def init_poolSettings_def sim_library sim_ParseConfig_DefaultURL)
  have c: "ConnConfig_of sim_ext init_world (default_dbs (Some 0)) DefaultURL [] =
             Return (Some (db_config sim_db))"
    by (simp add: ConnConfig_of_def LogLevel_of_def defaultLevel_def sim_ext_def default_dbs_def
        deref_def init_world_def init_poolSettings_def sim_library sim_ParseConfig_DefaultURL
        sim_db_def Let_def)
  have d: "DBURL sim_ext (default_dbs (Some 0)) = DefaultURL"
    by (simp add: DBURL_def sim_ext_def default_dbs_def)
  from sim_open_auth [of DefaultURL Background "db_config sim_db"]
  have o: "open_pool sim_ext init_world (default_dbs (Some 0)) Background (Some (db_config sim_db))
             (sim_pings [Some authError] 0) =
           Return (Inl (Join ErrPGAuth authError), sim_auth_failed Background (db_config sim_db))"
    by (simp add: default_dbs_def)
  show ?thesis
    by (simp add: Start_def fresh_repo_def v c d o)
qed

lemma sim_Parse_other:
  "sim_Parse ''postgresql://postgres@localhost:5432/other?sslmode=disable'' =
     Inr (default_url\<lparr>Path := ''/other''\<rparr>)"
  by code_simp

section \<open>Properties of the repository\<close>

lemma Start_failure_keeps_repository:
  "Start ext w r st = Return (Some err, r', st') \<Longrightarrow> r' = r"
  by (auto simp: Start_def Let_def split: outcome.splits option.splits prod.splits sum.splits)

lemma Start_success_sets_handle:
  "Start ext w r st = Return (None, r', st') \<Longrightarrow> \<exists>db. r' = r\<lparr>r_db := Some db\<rparr>"
  by (auto simp: Start_def Let_def split: outcome.splits option.splits prod.splits sum.splits)

text \<open>
  C8. A repository from \<open>New\<close> has no pool handle. While it has none, \<open>Stop\<close> returns no
  error and calls nothing, and \<open>HealthCheck\<close> returns \<open>ErrDBNotInitialized\<close> and calls
  nothing. A \<open>Start\<close> that returns an error, from validation, from opening or from the
  probe, leaves the repository as it was: without a handle if it had none.
\<close>

theorem C8_lifecycle:
  "(New dbAlias opts w0 = Return (r0, w1) \<longrightarrow> r_db r0 = None) \<and>
   (r_db r = None \<longrightarrow>
      Stop ext r st = (None, st) \<and>
      HealthCheck ext w r st = Return (Some ErrDBNotInitialized, st)) \<and>
   (Start ext w r st = Return (Some err, r', st') \<longrightarrow> r' = r) \<and>
   (r_db r = None \<and> Start ext w r st = Return (Some err, r', st') \<longrightarrow> r_db r' = None)"
  using Start_failure_keeps_repository [of ext w r st err r' st']
  by (auto simp: New_def Stop_def HealthCheck_def split: outcome.splits prod.splits)

theorem C8_lifecycle_witness:
  "New DefaultDBAlias [] init_world = Return (fresh_repo, init_world) \<and>
   r_db fresh_repo = None \<and>
   Stop sim_ext fresh_repo sim0 = (None, sim0) \<and>
   HealthCheck sim_ext init_world fresh_repo sim0 = Return (Some ErrDBNotInitialized, sim0) \<and>
   Start sim_ext init_world fresh_repo (sim_pings [Some authError] 0) =
     Return (Some (Join ErrPGAuth authError), fresh_repo,
             sim_auth_failed Background (db_config sim_db))"
proof -
  from C8_lifecycle [where dbAlias = DefaultDBAlias and opts = "[]" and ?w0.0 = init_world
      and ?r0.0 = fresh_repo and ?w1.0 = init_world] sim_New
  have n: "r_db fresh_repo = None"
    by blast
  from C8_lifecycle [where r = fresh_repo and ext = sim_ext and st = sim0 and w = init_world] n
  have s: "Stop sim_ext fresh_repo sim0 = (None, sim0)"
    and h: "HealthCheck sim_ext init_world fresh_repo sim0 = Return (Some ErrDBNotInitialized, sim0)"
    by blast+
  from C8_lifecycle [where r = fresh_repo and ext = sim_ext and w = init_world
      and st = "sim_pings [Some authError] 0" and err = "Join ErrPGAuth authError"
      and r' = fresh_repo and st' = "sim_auth_failed Background (db_config sim_db)"]
    n sim_Start_auth
  have "r_db fresh_repo = None"
    by blast
  with sim_New s h sim_Start_auth show ?thesis
    by simp
qed

section \<open>Properties of provisioning\<close>

text \<open>What the administrative connection is opened on.\<close>

lemma ConnConfig_of_target:
  "ConnConfig_of ext w r u ap = Return (Some cfg) \<Longrightarrow>
   \<exists>c. pgx_ParseConfig ext u = Inr c \<and> cc_ConnString cfg = cc_ConnString c \<and>
       cc_Database cfg = cc_Database c"
  by (auto simp: ConnConfig_of_def Let_def split: sum.splits outcome.splits if_splits)

lemma open_pool_handle:
  "open_pool ext w s ctx dcfg st = Return (Inr db, st') \<Longrightarrow> \<exists>cfg. dcfg = Some cfg \<and> db_config db = cfg"
  by (auto simp: open_pool_def Let_def split: option.splits outcome.splits sum.splits prod.splits if_splits)

lemma connectNoDB_target:
  assumes "url_Parse ext dsn = Inr u"
      and "connectNoDB ext w ctx dsn s st = Return (Inr db, st')"
  shows "\<exists>c. pgx_ParseConfig ext (ExpandEnv ext (url_String ext (u\<lparr>Path := ''postgres''\<rparr>))) = Inr c \<and>
             cc_ConnString (db_config db) = cc_ConnString c \<and>
             cc_Database (db_config db) = cc_Database c"
proof -
  let ?s = "s\<lparr>URL := url_String ext (u\<lparr>Path := ''postgres''\<rparr>)\<rparr>"
  from assms obtain connCfg where
      c: "ConnConfig_of ext w ?s (DBURL ext ?s) [] = Return connCfg"
      and o: "open_pool ext w ?s ctx connCfg st = Return (Inr db, st')"
    by (auto simp: connectNoDB_def Let_def split: outcome.splits option.splits sum.splits prod.splits)
  from open_pool_handle [OF o] obtain cfg where "connCfg = Some cfg" "db_config db = cfg"
    by blast
  with ConnConfig_of_target [of ext w ?s "DBURL ext ?s" "[]" cfg] c show ?thesis
    by (simp add: DBURL_def)
qed

lemma connectNoDB_path_ignored:
  assumes "url_Parse ext dsn = Inr u" and "url_Parse ext dsn' = Inr (u\<lparr>Path := p\<rparr>)"
  shows "connectNoDB ext w ctx dsn' s st = connectNoDB ext w ctx dsn s st"
  using assms by (simp add: connectNoDB_def)

lemma waitPing_no_open:
  assumes "waitPing ext ctx db d st = Return (res, st')"
  shows "\<exists>cs. calls st' = calls st @ cs \<and> (\<forall>drv c. CallOpen drv c \<notin> set cs)"
proof -
  from waitPing_shape [OF assms] obtain k cs where
      c: "calls st' = calls st @
            replicate k (CallPing (WithDeadline ctx (Now ext (outside st) + waitPing_maxWait d))) @ cs"
      and l: "cs = [] \<or> (\<exists>t e. cs = [CallPing (WithDeadline ctx (t + waitPing_maxWait d))] \<and>
                   res = Some (snd (errShouldReturn e)))"
    by blast
  from l have "\<forall>drv c. CallOpen drv c \<notin> set cs" by auto
  with c show ?thesis
    by (intro exI [of _ "replicate k (CallPing (WithDeadline ctx (Now ext (outside st) + waitPing_maxWait d))) @ cs"])
       auto
qed

lemma SetPool_no_open: "SetPool w r = Return cs \<Longrightarrow> CallOpen drv c \<notin> set cs"
  by (auto simp: SetPool_def split: if_splits outcome.splits)

lemma open_pool_opens:
  assumes "open_pool ext w s ctx (Some cfg) st = Return (r, st')"
  shows "\<exists>cs. calls st' = calls st @ cs \<and> (\<forall>drv c. CallOpen drv c \<in> set cs \<longrightarrow> c = cfg)"
proof -
  from assms obtain opts where to: "TraceOptions ext w s (cc_ConnString cfg) = Return opts"
    by (auto simp: open_pool_def split: outcome.splits)
  obtain reg st1 where reg:
    "(if opts \<noteq> []
      then (case RegisterWithSource ext driverName cfg opts (outside st) of
              (r, s') \<Rightarrow> (r, \<lparr>outside = s', calls = calls st @ [CallRegisterWithSource driverName cfg]\<rparr>))
      else (Inr driverName, st)) = (reg, st1)"
    by (cases "(if opts \<noteq> []
      then (case RegisterWithSource ext driverName cfg opts (outside st) of
              (r, s') \<Rightarrow> (r, \<lparr>outside = s', calls = calls st @ [CallRegisterWithSource driverName cfg]\<rparr>))
      else (Inr driverName, st))")
  then have c1: "calls st1 = calls st \<or> calls st1 = calls st @ [CallRegisterWithSource driverName cfg]"
    by (auto split: if_splits prod.splits)
  show ?thesis
  proof (cases reg)
    case (Inl err)
    with assms to reg have "st' = st1"
      by (simp add: open_pool_def)
    with c1 show ?thesis by auto
  next
    case (Inr drv)
    obtain oerr s2 where o: "sql_Open ext drv cfg (outside st1) = (oerr, s2)"
      by (cases "sql_Open ext drv cfg (outside st1)")
    let ?st2 = "\<lparr>outside = s2, calls = calls st1 @ [CallOpen drv cfg]\<rparr>"
    show ?thesis
    proof (cases oerr)
      case (Some err)
      with assms to reg Inr o have "st' = ?st2"
        by (simp add: open_pool_def Let_def)
      with c1 show ?thesis by auto
    next
      case None
      with assms to reg Inr o obtain mw where mw: "maxWait w s = Return mw"
        by (auto simp: open_pool_def Let_def split: outcome.splits)
      with assms to reg Inr o None obtain res st3 where
          w: "waitPing ext ctx \<lparr>db_driver = drv, db_config = cfg\<rparr> mw ?st2 = Return (res, st3)"
        by (auto simp: open_pool_def Let_def split: outcome.splits)
      from waitPing_no_open [OF w] obtain cs where
          c3: "calls st3 = calls ?st2 @ cs" "\<forall>drv c. CallOpen drv c \<notin> set cs"
        by blast
      from assms to reg Inr o None mw w have
        "st' = st3 \<or> (\<exists>ps. SetPool w s = Return ps \<and> st' = st3\<lparr>calls := calls st3 @ ps\<rparr>)"
        by (auto simp: open_pool_def Let_def split: outcome.splits option.splits)
      then show ?thesis
      proof
        assume "st' = st3"
        with c1 c3 show ?thesis by auto
      next
        assume "\<exists>ps. SetPool w s = Return ps \<and> st' = st3\<lparr>calls := calls st3 @ ps\<rparr>"
        then obtain ps where ps: "SetPool w s = Return ps" "st' = st3\<lparr>calls := calls st3 @ ps\<rparr>"
          by blast
        from SetPool_no_open [OF ps(1)] have "\<forall>drv c. CallOpen drv c \<notin> set ps" by blast
        with c1 c3 ps(2) show ?thesis by auto
      qed
    qed
  qed
qed

lemma connectNoDB_opens:
  assumes "url_Parse ext dsn = Inr u"
      and "connectNoDB ext w ctx dsn s st = Return (r, st')"
  shows "\<exists>cs. calls st' = calls st @ cs \<and>
           (\<forall>drv c. CallOpen drv c \<in> set cs \<longrightarrow>
              (\<exists>c0. pgx_ParseConfig ext (ExpandEnv ext (url_String ext (u\<lparr>Path := ''postgres''\<rparr>))) = Inr c0 \<and>
                    cc_ConnString c = cc_ConnString c0 \<and> cc_Database c = cc_Database c0))"
proof -
  let ?s = "s\<lparr>URL := url_String ext (u\<lparr>Path := ''postgres''\<rparr>)\<rparr>"
  from assms have
    "st' = st \<or> (\<exists>connCfg r'. ConnConfig_of ext w ?s (DBURL ext ?s) [] = Return connCfg \<and>
                    open_pool ext w ?s ctx connCfg st = Return (r', st'))"
    by (auto simp: connectNoDB_def Let_def split: outcome.splits option.splits sum.splits prod.splits)
  then show ?thesis
  proof
    assume "st' = st"
    then show ?thesis by simp
  next
    assume "\<exists>connCfg r'. ConnConfig_of ext w ?s (DBURL ext ?s) [] = Return connCfg \<and>
                    open_pool ext w ?s ctx connCfg st = Return (r', st')"
    then obtain connCfg r' where c: "ConnConfig_of ext w ?s (DBURL ext ?s) [] = Return connCfg"
      and o: "open_pool ext w ?s ctx connCfg st = Return (r', st')" by blast
    show ?thesis
    proof (cases connCfg)
      case None
      with o have "st' = st" by (simp add: open_pool_def)
      then show ?thesis by simp
    next
      case (Some cfg)
      from ConnConfig_of_target [of ext w ?s "DBURL ext ?s" "[]" cfg] c Some obtain c0 where
        c0: "pgx_ParseConfig ext (ExpandEnv ext (url_String ext (u\<lparr>Path := ''postgres''\<rparr>))) = Inr c0"
          "cc_ConnString cfg = cc_ConnString c0" "cc_Database cfg = cc_Database c0"
        by (auto simp: DBURL_def)
      from open_pool_opens [of ext w ?s ctx cfg st r' st'] o Some obtain cs where
        "calls st' = calls st @ cs" "\<forall>drv c. CallOpen drv c \<in> set cs \<longrightarrow> c = cfg"
        by blast
      with c0 show ?thesis
        by (intro exI [of _ cs]) auto
    qed
  qed
qed

text \<open>
  C9. For a DSN that parses, \<open>connectNoDB\<close> sets the path of the URL to \<open>postgres\<close>
  before anything is opened: the handle it returns, and every \<open>sql.Open\<close> it makes, is on
  the configuration parsed from that URL, and the path the DSN came with (the database to
  create or to drop) has no part in it: two DSNs that differ in their path only give the
  same run.
\<close>

theorem C9_admin_connection_target:
  assumes "url_Parse ext dsn = Inr u"
  shows "(connectNoDB ext w ctx dsn s st = Return (Inr db, st') \<longrightarrow>
            (\<exists>c. pgx_ParseConfig ext (ExpandEnv ext (url_String ext (u\<lparr>Path := ''postgres''\<rparr>))) = Inr c \<and>
                 cc_ConnString (db_config db) = cc_ConnString c \<and>
                 cc_Database (db_config db) = cc_Database c)) \<and>
         (connectNoDB ext w ctx dsn s st = Return (r, st') \<longrightarrow>
            (\<exists>cs. calls st' = calls st @ cs \<and>
               (\<forall>drv c. CallOpen drv c \<in> set cs \<longrightarrow>
                  (\<exists>c0. pgx_ParseConfig ext
                           (ExpandEnv ext (url_String ext (u\<lparr>Path := ''postgres''\<rparr>))) = Inr c0 \<and>
                        cc_ConnString c = cc_ConnString c0 \<and> cc_Database c = cc_Database c0)))) \<and>
         (url_Parse ext dsn' = Inr (u\<lparr>Path := p\<rparr>) \<longrightarrow>
            connectNoDB ext w ctx dsn' s st = connectNoDB ext w ctx dsn s st)"
  using connectNoDB_target [OF assms, of w ctx s st db st']
    connectNoDB_opens [OF assms, of w ctx s st r st']
    connectNoDB_path_ignored [OF assms, of dsn' p w ctx s st]
  by blast

theorem C9_admin_connection_witness:
  "connectNoDB sim_ext init_world Background DefaultURL (default_dbs (Some 0)) sim0 =
     Return (Inr admin_db, sim_state [''postgres''] (admin_calls Background (Some 0))) \<and>
   cc_Database (db_config admin_db) = ''postgres'' \<and>
   cc_ConnString (db_config admin_db) = adminURL \<and>
   CallOpen driverName admin_cfg \<in> set (admin_calls Background (Some 0)) \<and>
   cc_Database admin_cfg = ''postgres'' \<and>
   connectNoDB sim_ext init_world Background
       ''postgresql://postgres@localhost:5432/other?sslmode=disable'' (default_dbs (Some 0)) sim0 =
     Return (Inr admin_db, sim_state [''postgres''] (admin_calls Background (Some 0)))"
proof -
  have s0: "sim0 = sim_state [''postgres''] []"
    by (simp add: sim0_def sim_state_def)
  have c: "connectNoDB sim_ext init_world Background DefaultURL (default_dbs (Some 0)) sim0 =
     Return (Inr admin_db, sim_state [''postgres''] (admin_calls Background (Some 0)))"
    by (simp add: s0 sim_connect)
  have o: "url_Parse sim_ext ''postgresql://postgres@localhost:5432/other?sslmode=disable'' =
             Inr (default_url\<lparr>Path := ''/other''\<rparr>)"
    by (simp add: sim_ext_def sim_Parse_other)
  note T = C9_admin_connection_target [OF sim_admin_url(1), where w = init_world
      and ctx = Background and s = "default_dbs (Some 0)" and st = sim0 and db = admin_db
      and st' = "sim_state [''postgres''] (admin_calls Background (Some 0))"
      and r = "Inr admin_db"
      and dsn' = "''postgresql://postgres@localhost:5432/other?sslmode=disable''"
      and p = "''/other''"]
  from T c obtain cc where
      "pgx_ParseConfig sim_ext (ExpandEnv sim_ext (url_String sim_ext (default_url\<lparr>Path := ''postgres''\<rparr>))) = Inr cc"
      "cc_ConnString (db_config admin_db) = cc_ConnString cc"
      "cc_Database (db_config admin_db) = cc_Database cc"
    by blast
  then have d: "cc_Database (db_config admin_db) = ''postgres''"
      "cc_ConnString (db_config admin_db) = adminURL"
    by (auto simp: sim_ext_def sim_library admin_cfg_def)
  from T o c have "connectNoDB sim_ext init_world Background
       ''postgresql://postgres@localhost:5432/other?sslmode=disable'' (default_dbs (Some 0)) sim0 =
     Return (Inr admin_db, sim_state [''postgres''] (admin_calls Background (Some 0)))"
    by simp
  moreover
  from T c obtain cs where
      cs: "calls (sim_state [''postgres''] (admin_calls Background (Some 0))) = calls sim0 @ cs"
        "\<forall>drv c. CallOpen drv c \<in> set cs \<longrightarrow>
           (\<exists>c0. pgx_ParseConfig sim_ext
                   (ExpandEnv sim_ext (url_String sim_ext (default_url\<lparr>Path := ''postgres''\<rparr>))) = Inr c0 \<and>
                 cc_ConnString c = cc_ConnString c0 \<and> cc_Database c = cc_Database c0)"
    by blast
  from cs(1) have a: "cs = admin_calls Background (Some 0)"
    by (simp add: sim_state_def sim0_def)
  then have m: "CallOpen driverName admin_cfg \<in> set cs"
    by (simp add: admin_calls_def)
  with cs(2) obtain c0 where
      "pgx_ParseConfig sim_ext
         (ExpandEnv sim_ext (url_String sim_ext (default_url\<lparr>Path := ''postgres''\<rparr>))) = Inr c0"
      "cc_Database admin_cfg = cc_Database c0"
    by blast
  then have "cc_Database admin_cfg = ''postgres''"
    by (auto simp: sim_ext_def sim_library admin_cfg_def)
  ultimately show ?thesis
    using c d a m by simp
qed

text \<open>The calls of each step.\<close>

lemma close_db_calls: "calls (snd (close_db ext db st)) = calls st @ [CallClose]"
  by (simp add: close_db_def split: prod.splits)

lemma begin_tx_calls: "begin_tx ext db ctx st = (r, st') \<Longrightarrow> calls st' = calls st @ [CallBegin]"
  by (auto simp: begin_tx_def split: prod.splits)

lemma dbExists_calls:
  "dbExists ext ctx tx n st = (r, st') \<Longrightarrow> calls st' = calls st @ [CallQuery existsQuery n]"
  by (auto simp: dbExists_def Let_def split: prod.splits option.splits if_splits)

lemma exec_sql_calls: "exec_sql ext db ctx q st = (r, st') \<Longrightarrow> calls st' = calls st @ [CallExec q]"
  by (auto simp: exec_sql_def split: prod.splits)

lemma commit_tx_calls: "commit_tx ext tx st = (r, st') \<Longrightarrow> calls st' = calls st @ [CallCommit]"
  by (auto simp: commit_tx_def split: prod.splits)

lemma commit_tx_calls_snd: "calls (snd (commit_tx ext tx st)) = calls st @ [CallCommit]"
  by (cases "commit_tx ext tx st") (simp add: commit_tx_calls)

lemma dbExists_cases:
  "dbExists ext ctx tx n st = ((ok, err), st') \<Longrightarrow>
   (ok \<and> err = None) \<or> (\<not> ok \<and> err = None) \<or> (\<not> ok \<and> err \<noteq> None)"
  by (auto simp: dbExists_def Let_def split: prod.splits option.splits if_splits)

lemma CreateDB_tx_present:
  assumes "begin_tx ext db ctx st1 = (Inr tx, st2)"
      and "dbExists ext ctx tx n st2 = ((True, None), st3)"
  shows "CreateDB_tx ext ctx db n st1 = ((False, None), snd (commit_tx ext tx st3))"
  using assms by (simp add: CreateDB_tx_def split: prod.splits)

lemma CreateDB_tx_absent:
  assumes "begin_tx ext db ctx st1 = (Inr tx, st2)"
      and "dbExists ext ctx tx n st2 = ((False, None), st3)"
      and "exec_sql ext db ctx (''CREATE DATABASE '' @ n) st3 = (None, st4)"
      and "commit_tx ext tx st4 = (None, st5)"
  shows "CreateDB_tx ext ctx db n st1 = ((True, None), st5)"
  using assms by (simp add: CreateDB_tx_def)

lemma CreateDB_connected:
  assumes "settingsFromOptions opts w0 = Return (s, w)"
      and "URL (DBSettingsFor w s dbName0) \<noteq> []"
      and "CreateDB_dbName ext dbName0 (DBSettingsFor w s dbName0) = Inr n"
      and "connectNoDB ext w (WithCancel ctx) (URL (DBSettingsFor w s dbName0))
             (DBSettingsFor w s dbName0) st = Return (Inr db, st1)"
  shows "CreateDB ext ctx dbName0 opts w0 st =
           Return (fst (CreateDB_tx ext (WithCancel ctx) db n st1), w,
                   snd (close_db ext db (snd (CreateDB_tx ext (WithCancel ctx) db n st1))))"
  using assms by (simp add: CreateDB_def Let_def split: prod.splits)

text \<open>
  C4. Let the settings resolve to a non-empty URL, the administrative connection open and
  the transaction begin. When the existence probe finds the database, \<open>CreateDB\<close> commits
  and returns \<open>(false, nil)\<close>, and what it called on the connection is the probe, the
  commit and the close: no \<open>CREATE DATABASE\<close>. When the probe finds no row and both the
  \<open>CREATE DATABASE\<close> and the commit succeed, it returns \<open>(true, nil)\<close>. So two
  calls in a row against a server that keeps its catalog give \<open>(true, nil)\<close>, then
  \<open>(false, nil)\<close>: \<open>sim_CreateDB_twice\<close> below, on the simulated server, for any name.
\<close>

theorem C4_CreateDB:
  assumes "settingsFromOptions opts w0 = Return (s, w)"
      and "URL (DBSettingsFor w s dbName0) \<noteq> []"
      and "CreateDB_dbName ext dbName0 (DBSettingsFor w s dbName0) = Inr n"
      and "connectNoDB ext w (WithCancel ctx) (URL (DBSettingsFor w s dbName0))
             (DBSettingsFor w s dbName0) st = Return (Inr db, st1)"
      and "begin_tx ext db (WithCancel ctx) st1 = (Inr tx, st2)"
  shows "(dbExists ext (WithCancel ctx) tx n st2 = ((True, None), st3) \<longrightarrow>
            CreateDB ext ctx dbName0 opts w0 st =
              Return ((False, None), w, snd (close_db ext db (snd (commit_tx ext tx st3)))) \<and>
            calls (snd (close_db ext db (snd (commit_tx ext tx st3)))) =
              calls st1 @ [CallBegin, CallQuery existsQuery n, CallCommit, CallClose]) \<and>
         (dbExists ext (WithCancel ctx) tx n st2 = ((False, None), st3) \<and>
          exec_sql ext db (WithCancel ctx) (''CREATE DATABASE '' @ n) st3 = (None, st4) \<and>
          commit_tx ext tx st4 = (None, st5) \<longrightarrow>
            CreateDB ext ctx dbName0 opts w0 st =
              Return ((True, None), w, snd (close_db ext db st5)) \<and>
            calls (snd (close_db ext db st5)) =
              calls st1 @ [CallBegin, CallQuery existsQuery n,
                           CallExec (''CREATE DATABASE '' @ n), CallCommit, CallClose])"
proof (intro conjI impI)
  assume p: "dbExists ext (WithCancel ctx) tx n st2 = ((True, None), st3)"
  from CreateDB_tx_present [OF assms(5) p] CreateDB_connected [OF assms(1-4)]
  show "CreateDB ext ctx dbName0 opts w0 st =
          Return ((False, None), w, snd (close_db ext db (snd (commit_tx ext tx st3))))"
    by simp
  from begin_tx_calls [OF assms(5)] dbExists_calls [OF p]
  show "calls (snd (close_db ext db (snd (commit_tx ext tx st3)))) =
          calls st1 @ [CallBegin, CallQuery existsQuery n, CallCommit, CallClose]"
    by (simp add: close_db_calls commit_tx_calls_snd)
next
  assume a: "dbExists ext (WithCancel ctx) tx n st2 = ((False, None), st3) \<and>
          exec_sql ext db (WithCancel ctx) (''CREATE DATABASE '' @ n) st3 = (None, st4) \<and>
          commit_tx ext tx st4 = (None, st5)"
  then have p: "dbExists ext (WithCancel ctx) tx n st2 = ((False, None), st3)"
    and e: "exec_sql ext db (WithCancel ctx) (''CREATE DATABASE '' @ n) st3 = (None, st4)"
    and c: "commit_tx ext tx st4 = (None, st5)" by simp_all
  from CreateDB_tx_absent [OF assms(5) p e c] CreateDB_connected [OF assms(1-4)]
  show "CreateDB ext ctx dbName0 opts w0 st = Return ((True, None), w, snd (close_db ext db st5))"
    by simp
  from begin_tx_calls [OF assms(5)] dbExists_calls [OF p] exec_sql_calls [OF e] commit_tx_calls [OF c]
  show "calls (snd (close_db ext db st5)) =
          calls st1 @ [CallBegin, CallQuery existsQuery n,
                       CallExec (''CREATE DATABASE '' @ n), CallCommit, CallClose]"
    by (simp add: close_db_calls)
qed

theorem C4_CreateDB_witness:
  "CreateDB sim_ext Background DefaultDBAlias [] init_world (sim_state [''postgres''] []) =
     Return ((True, None), init_world,
       sim_state [''testdb'', ''postgres'']
         (admin_calls (WithCancel Background) (Some 0) @
          [CallBegin, CallQuery existsQuery ''testdb'', CallExec ''CREATE DATABASE testdb'',
           CallCommit, CallClose])) \<and>
   CreateDB sim_ext Background DefaultDBAlias [] init_world
       (sim_state [''testdb'', ''postgres'']
         (admin_calls (WithCancel Background) (Some 0) @
          [CallBegin, CallQuery existsQuery ''testdb'', CallExec ''CREATE DATABASE testdb'',
           CallCommit, CallClose])) =
     Return ((False, None), init_world,
       sim_state [''testdb'', ''postgres'']
         (admin_calls (WithCancel Background) (Some 0) @
          [CallBegin, CallQuery existsQuery ''testdb'', CallExec ''CREATE DATABASE testdb'',
           CallCommit, CallClose] @
          admin_calls (WithCancel Background) (Some 0) @
          [CallBegin, CallQuery existsQuery ''testdb'', CallCommit, CallClose]))"
proof -
  let ?dbs = "DBSettingsFor init_world (defaultSettings init_world) DefaultDBAlias"
  let ?ctx = "WithCancel Background"
  have r: "?dbs = default_dbs (Some 0)"
    by (simp add: sim_resolved)
  have h2: "URL ?dbs \<noteq> []"
    by (simp add: r URL_default_dbs URLs_nonempty)
  have h3: "CreateDB_dbName sim_ext DefaultDBAlias ?dbs = Inr ''testdb''"
    by (simp add: r sim_dbName)
  have h4: "connectNoDB sim_ext init_world ?ctx (URL ?dbs) ?dbs (sim_state cat cs) =
              Return (Inr admin_db, sim_state cat (cs @ admin_calls ?ctx (Some 0)))" for cat cs
    by (simp add: r URL_default_dbs sim_connect)
  have absent: "dbExists sim_ext ?ctx 0 ''testdb'' (sim_state [''postgres''] cs) =
              ((False, None), sim_state [''postgres''] (cs @ [CallQuery existsQuery ''testdb'']))" for cs
    by (simp add: sim_probe)
  have present: "dbExists sim_ext ?ctx 0 ''testdb'' (sim_state [''testdb'', ''postgres''] cs) =
              ((True, None), sim_state [''testdb'', ''postgres''] (cs @ [CallQuery existsQuery ''testdb'']))" for cs
    by (simp add: sim_probe)
  have create: "exec_sql sim_ext admin_db ?ctx (''CREATE DATABASE '' @ ''testdb'') (sim_state [''postgres''] cs) =
              (None, sim_state [''testdb'', ''postgres''] (cs @ [CallExec (''CREATE DATABASE '' @ ''testdb'')]))" for cs
    by (rule sim_create) simp
  from C4_CreateDB [OF sim_settings h2 h3 h4 sim_begin, THEN conjunct2, rule_format,
      OF conjI [OF absent conjI [OF create sim_commit]]]
  have first: "CreateDB sim_ext Background DefaultDBAlias [] init_world (sim_state [''postgres''] []) =
     Return ((True, None), init_world,
       sim_state [''testdb'', ''postgres'']
         (admin_calls ?ctx (Some 0) @
          [CallBegin, CallQuery existsQuery ''testdb'', CallExec ''CREATE DATABASE testdb'',
           CallCommit, CallClose]))"
    by (simp add: sim_close)
  from C4_CreateDB [OF sim_settings h2 h3 h4 sim_begin, THEN conjunct1, rule_format, OF present]
  have second: "CreateDB sim_ext Background DefaultDBAlias [] init_world (sim_state [''testdb'', ''postgres''] cs) =
     Return ((False, None), init_world,
       sim_state [''testdb'', ''postgres'']
         (cs @ admin_calls ?ctx (Some 0) @
          [CallBegin, CallQuery existsQuery ''testdb'', CallCommit, CallClose]))" for cs
    by (simp add: sim_close sim_commit)
  from first second show ?thesis by simp
qed

text \<open>Create twice on the simulated server, for a name that is not an alias and is not
  in the catalog: created, then found.\<close>

lemma sim_CreateDB_twice:
  assumes "n \<noteq> DefaultDBAlias" and "n \<notin> set cat"
  shows "CreateDB sim_ext ctx n [] init_world (sim_state cat cs) =
           Return ((True, None), init_world,
             sim_state (n # cat)
               (cs @ admin_calls (WithCancel ctx) None @
                [CallBegin, CallQuery existsQuery n, CallExec (''CREATE DATABASE '' @ n),
                 CallCommit, CallClose]))"
    and "CreateDB sim_ext ctx n [] init_world (sim_state (n # cat) cs') =
           Return ((False, None), init_world,
             sim_state (n # cat)
               (cs' @ admin_calls (WithCancel ctx) None @
                [CallBegin, CallQuery existsQuery n, CallCommit, CallClose]))"
proof -
  let ?dbs = "DBSettingsFor init_world (defaultSettings init_world) n"
  from assms(1) have r: "?dbs = default_dbs None"
    by (simp add: sim_resolved)
  have u: "URL ?dbs \<noteq> []"
    by (simp add: r URL_default_dbs URLs_nonempty)
  from assms(1) have d: "CreateDB_dbName sim_ext n ?dbs = Inr n"
    by (simp add: r sim_dbName)
  have c: "connectNoDB sim_ext init_world (WithCancel ctx) (URL ?dbs) ?dbs (sim_state cat' cs'') =
             Return (Inr admin_db, sim_state cat' (cs'' @ admin_calls (WithCancel ctx) None))"
    for cat' cs''
    by (simp add: r URL_default_dbs sim_connect)
  from assms(2) have a: "dbExists sim_ext (WithCancel ctx) 0 n (sim_state cat cs'') =
             ((False, None), sim_state cat (cs'' @ [CallQuery existsQuery n]))" for cs''
    by (simp add: sim_probe)
  have p: "dbExists sim_ext (WithCancel ctx) 0 n (sim_state (n # cat) cs'') =
             ((True, None), sim_state (n # cat) (cs'' @ [CallQuery existsQuery n]))" for cs''
    by (simp add: sim_probe)
  from CreateDB_connected [OF sim_settings u d c]
    CreateDB_tx_absent [OF sim_begin a sim_create [OF assms(2)] sim_commit]
  have "CreateDB sim_ext ctx n [] init_world (sim_state cat cs) =
           Return ((True, None), init_world,
             sim_state (n # cat)
               (cs @ admin_calls (WithCancel ctx) None @ [CallBegin] @
                [CallQuery existsQuery n] @ [CallExec (''CREATE DATABASE '' @ n)] @
                [CallCommit] @ [CallClose]))"
    by (simp add: sim_close del: append_Cons)
  then show "CreateDB sim_ext ctx n [] init_world (sim_state cat cs) =
           Return ((True, None), init_world,
             sim_state (n # cat)
               (cs @ admin_calls (WithCancel ctx) None @
                [CallBegin, CallQuery existsQuery n, CallExec (''CREATE DATABASE '' @ n),
                 CallCommit, CallClose]))"
    by simp
  from CreateDB_connected [OF sim_settings u d c] CreateDB_tx_present [OF sim_begin p]
  show "CreateDB sim_ext ctx n [] init_world (sim_state (n # cat) cs') =
           Return ((False, None), init_world,
             sim_state (n # cat)
               (cs' @ admin_calls (WithCancel ctx) None @
                [CallBegin, CallQuery existsQuery n, CallCommit, CallClose]))"
    by (simp add: sim_close sim_commit)
qed

lemma DropDB_tx_absent:
  assumes "begin_tx ext db ctx st1 = (Inr tx, st2)"
      and "dbExists ext ctx tx n st2 = ((False, None), st3)"
  shows "DropDB_tx ext ctx db n st1 = ((False, None), st3)"
  using assms by (simp add: DropDB_tx_def)

lemma DropDB_tx_present:
  assumes "begin_tx ext db ctx st1 = (Inr tx, st2)"
      and "dbExists ext ctx tx n st2 = ((True, None), st3)"
      and "exec_sql ext db ctx (''DROP DATABASE IF EXISTS '' @ n) st3 = (None, st4)"
      and "commit_tx ext tx st4 = (None, st5)"
  shows "DropDB_tx ext ctx db n st1 = ((True, None), st5)"
  using assms by (simp add: DropDB_tx_def)

lemma DropDB_connected:
  assumes "settingsFromOptions opts w0 = Return (s, w)"
      and "connectNoDB ext w (WithCancel ctx) (URL (DBSettingsFor w s n))
             (DBSettingsFor w s n) st = Return (Inr db, st1)"
  shows "DropDB ext ctx n opts w0 st =
           Return (fst (DropDB_tx ext (WithCancel ctx) db n st1), w,
                   snd (close_db ext db (snd (DropDB_tx ext (WithCancel ctx) db n st1))))"
  using assms by (simp add: DropDB_def Let_def split: prod.splits)

text \<open>
  C5. Let the administrative connection open and the transaction begin. When the
  existence probe finds no row, \<open>DropDB\<close> returns \<open>(false, nil)\<close> and has called the probe
  and the close only: no DDL. When the probe finds the database and both the
  \<open>DROP DATABASE IF EXISTS\<close> and the commit succeed, it returns \<open>(true, nil)\<close>.
\<close>

theorem C5_DropDB:
  assumes "settingsFromOptions opts w0 = Return (s, w)"
      and "connectNoDB ext w (WithCancel ctx) (URL (DBSettingsFor w s n))
             (DBSettingsFor w s n) st = Return (Inr db, st1)"
      and "begin_tx ext db (WithCancel ctx) st1 = (Inr tx, st2)"
  shows "(dbExists ext (WithCancel ctx) tx n st2 = ((False, None), st3) \<longrightarrow>
            DropDB ext ctx n opts w0 st = Return ((False, None), w, snd (close_db ext db st3)) \<and>
            calls (snd (close_db ext db st3)) =
              calls st1 @ [CallBegin, CallQuery existsQuery n, CallClose]) \<and>
         (dbExists ext (WithCancel ctx) tx n st2 = ((True, None), st3) \<and>
          exec_sql ext db (WithCancel ctx) (''DROP DATABASE IF EXISTS '' @ n) st3 = (None, st4) \<and>
          commit_tx ext tx st4 = (None, st5) \<longrightarrow>
            DropDB ext ctx n opts w0 st = Return ((True, None), w, snd (close_db ext db st5)) \<and>
            calls (snd (close_db ext db st5)) =
              calls st1 @ [CallBegin, CallQuery existsQuery n,
                           CallExec (''DROP DATABASE IF EXISTS '' @ n), CallCommit, CallClose])"
proof (intro conjI impI)
  assume p: "dbExists ext (WithCancel ctx) tx n st2 = ((False, None), st3)"
  from DropDB_tx_absent [OF assms(3) p] DropDB_connected [OF assms(1,2)]
  show "DropDB ext ctx n opts w0 st = Return ((False, None), w, snd (close_db ext db st3))"
    by simp
  from begin_tx_calls [OF assms(3)] dbExists_calls [OF p]
  show "calls (snd (close_db ext db st3)) = calls st1 @ [CallBegin, CallQuery existsQuery n, CallClose]"
    by (simp add: close_db_calls)
next
  assume a: "dbExists ext (WithCancel ctx) tx n st2 = ((True, None), st3) \<and>
          exec_sql ext db (WithCancel ctx) (''DROP DATABASE IF EXISTS '' @ n) st3 = (None, st4) \<and>
          commit_tx ext tx st4 = (None, st5)"
  then have p: "dbExists ext (WithCancel ctx) tx n st2 = ((True, None), st3)"
    and e: "exec_sql ext db (WithCancel ctx) (''DROP DATABASE IF EXISTS '' @ n) st3 = (None, st4)"
    and c: "commit_tx ext tx st4 = (None, st5)" by simp_all
  from DropDB_tx_present [OF assms(3) p e c] DropDB_connected [OF assms(1,2)]
  show "DropDB ext ctx n opts w0 st = Return ((True, None), w, snd (close_db ext db st5))"
    by simp
  from begin_tx_calls [OF assms(3)] dbExists_calls [OF p] exec_sql_calls [OF e] commit_tx_calls [OF c]
  show "calls (snd (close_db ext db st5)) =
          calls st1 @ [CallBegin, CallQuery existsQuery n,
                       CallExec (''DROP DATABASE IF EXISTS '' @ n), CallCommit, CallClose]"
    by (simp add: close_db_calls)
qed

theorem C5_DropDB_witness:
  "DropDB sim_ext Background ''testdb'' [] init_world (sim_state [''testdb'', ''postgres''] []) =
     Return ((True, None), init_world,
       sim_state [''postgres'']
         (admin_calls (WithCancel Background) None @
          [CallBegin, CallQuery existsQuery ''testdb'', CallExec ''DROP DATABASE IF EXISTS testdb'',
           CallCommit, CallClose])) \<and>
   DropDB sim_ext Background ''testdb'' [] init_world (sim_state [''postgres''] []) =
     Return ((False, None), init_world,
       sim_state [''postgres'']
         (admin_calls (WithCancel Background) None @
          [CallBegin, CallQuery existsQuery ''testdb'', CallClose]))"
proof -
  let ?dbs = "DBSettingsFor init_world (defaultSettings init_world) ''testdb''"
  let ?ctx = "WithCancel Background"
  have r: "?dbs = default_dbs None"
    by (simp add: sim_resolved DefaultDBAlias_def)
  have h2: "connectNoDB sim_ext init_world ?ctx (URL ?dbs) ?dbs (sim_state cat cs) =
              Return (Inr admin_db, sim_state cat (cs @ admin_calls ?ctx None))" for cat cs
    by (simp add: r URL_default_dbs sim_connect)
  have absent: "dbExists sim_ext ?ctx 0 ''testdb'' (sim_state [''postgres''] cs) =
              ((False, None), sim_state [''postgres''] (cs @ [CallQuery existsQuery ''testdb'']))" for cs
    by (simp add: sim_probe)
  have present: "dbExists sim_ext ?ctx 0 ''testdb'' (sim_state [''testdb'', ''postgres''] cs) =
              ((True, None), sim_state [''testdb'', ''postgres''] (cs @ [CallQuery existsQuery ''testdb'']))" for cs
    by (simp add: sim_probe)
  have drop: "exec_sql sim_ext admin_db ?ctx (''DROP DATABASE IF EXISTS '' @ ''testdb'')
                (sim_state [''testdb'', ''postgres''] cs) =
              (None, sim_state [''postgres''] (cs @ [CallExec (''DROP DATABASE IF EXISTS '' @ ''testdb'')]))" for cs
    using sim_drop [of admin_db ?ctx "''testdb''" "[''testdb'', ''postgres'']" cs] by simp
  from C5_DropDB [OF sim_settings h2 sim_begin, THEN conjunct2, rule_format,
      OF conjI [OF present conjI [OF drop sim_commit]]]
  have first: "DropDB sim_ext Background ''testdb'' [] init_world (sim_state [''testdb'', ''postgres''] []) =
     Return ((True, None), init_world,
       sim_state [''postgres'']
         (admin_calls ?ctx None @
          [CallBegin, CallQuery existsQuery ''testdb'', CallExec ''DROP DATABASE IF EXISTS testdb'',
           CallCommit, CallClose]))"
    by (simp add: sim_close)
  from C5_DropDB [OF sim_settings h2 sim_begin, THEN conjunct1, rule_format, OF absent]
  have second: "DropDB sim_ext Background ''testdb'' [] init_world (sim_state [''postgres''] []) =
     Return ((False, None), init_world,
       sim_state [''postgres'']
         (admin_calls ?ctx None @ [CallBegin, CallQuery existsQuery ''testdb'', CallClose]))"
    by (simp add: sim_close)
  from first second show ?thesis by simp
qed

text \<open>
  C7. Once \<open>EnsureDB\<close> has resolved its settings and reached \<open>CreateDB\<close>, an error of
  \<open>CreateDB\<close> comes back as it is, with a nil pool and the flag \<open>created\<close> set to true.
\<close>

theorem C7_EnsureDB_create_failure:
  assumes "settingsFromOptions opts w0 = Return (s, w1)"
      and "(if n \<noteq> DefaultDBAlias then SwitchDB ext (DBSettingsFor w1 s n) n
            else Inr (DBSettingsFor w1 s n)) = Inr dbs"
      and "CreateDB ext ctx n opts w1 st = Return ((created, Some err), w2, st1)"
  shows "EnsureDB ext ctx n opts w0 st = Return ((None, True, Some err), w2, st1)"
  using assms by (simp add: EnsureDB_def)

theorem C7_EnsureDB_witness:
  "EnsureDB sim_ext Background DefaultDBAlias [] init_world (sim_pings [Some authError] 0) =
     Return ((None, True,
              Some (Wrap (''could not connect to database server '' @ adminURL @ '': '')
                      (Join ErrPGAuth authError))),
             init_world, sim_auth_failed (WithCancel Background) admin_cfg) \<and>
   Is (Wrap (''could not connect to database server '' @ adminURL @ '': '')
         (Join ErrPGAuth authError)) ErrPGAuth"
proof -
  have sw: "(if DefaultDBAlias \<noteq> DefaultDBAlias
             then SwitchDB sim_ext (DBSettingsFor init_world (defaultSettings init_world) DefaultDBAlias)
                    DefaultDBAlias
             else Inr (DBSettingsFor init_world (defaultSettings init_world) DefaultDBAlias)) =
            Inr (DBSettingsFor init_world (defaultSettings init_world) DefaultDBAlias)"
    by simp
  from C7_EnsureDB_create_failure [OF sim_settings sw sim_CreateDB_auth]
  show ?thesis by simp
qed

end
